theory Spec2Isabelle
  imports Main
begin

section \<open>Python strings\<close>

text \<open>
  A Python \<open>str\<close> is modelled as a \<open>string\<close>: the list of its code points, restricted
  to code points below 256.  The functions of this section are the string methods that
  \<open>PENVCreator.py\<close> calls, with the behaviour CPython gives them on such strings.
\<close>

definition is_space :: "char \<Rightarrow> bool" where
  \<comment> \<open>\<open>str.isspace\<close> on one character; also what \<open>\s\<close> matches in a \<open>str\<close> pattern.\<close>
  "is_space c \<longleftrightarrow> (of_char c :: nat) \<in> {9, 10, 11, 12, 13, 28, 29, 30, 31, 32, 133, 160}"

definition is_linebreak :: "char \<Rightarrow> bool" where
  \<comment> \<open>The line boundaries of \<open>str.splitlines\<close>, apart from the pair CR LF.\<close>
  "is_linebreak c \<longleftrightarrow> (of_char c :: nat) \<in> {10, 11, 12, 13, 28, 29, 30, 133}"

definition LF :: char where
  "LF = CHR 0x0A"

definition CR :: char where
  "CR = CHR 0x0D"

fun set_bit5 :: "char \<Rightarrow> char" where
  \<comment> \<open>Adds 32 to the code of a character whose bit 5 is clear.\<close>
  "set_bit5 (Char b0 b1 b2 b3 b4 b5 b6 b7) = Char b0 b1 b2 b3 b4 True b6 b7"

definition lower_char :: "char \<Rightarrow> char" where
  \<comment> \<open>The upper-case letters below 256 are A to Z (65 to 90) and 192 to 222 without
      215; the lower-case letter is 32 further.\<close>
  "lower_char c =
     (let n = (of_char c :: nat)
      in if (65 \<le> n \<and> n \<le> 90) \<or> (192 \<le> n \<and> n \<le> 222 \<and> n \<noteq> 215)
         then set_bit5 c else c)"

definition lower :: "string \<Rightarrow> string" where
  \<comment> \<open>\<open>s.lower()\<close>\<close>
  "lower s = map lower_char s"

definition strip :: "string \<Rightarrow> string" where
  \<comment> \<open>\<open>s.strip()\<close>: leading and trailing whitespace removed.\<close>
  "strip s = rev (dropWhile is_space (rev (dropWhile is_space s)))"

fun startswith :: "string \<Rightarrow> string \<Rightarrow> bool" where
  \<comment> \<open>\<open>s.startswith(p)\<close>\<close>
  "startswith s [] = True"
| "startswith [] (p # ps) = False"
| "startswith (c # cs) (p # ps) = (c = p \<and> startswith cs ps)"

fun contains :: "string \<Rightarrow> string \<Rightarrow> bool" where
  \<comment> \<open>\<open>p in s\<close> for strings: \<open>p\<close> occurs in \<open>s\<close> as a substring.\<close>
  "contains [] p = (p = [])"
| "contains (c # cs) p = (startswith (c # cs) p \<or> contains cs p)"

fun split_ws_from :: "string \<Rightarrow> string \<Rightarrow> string list" where
  \<comment> \<open>The loop of \<open>s.split()\<close>; the first argument is the token being read, reversed.\<close>
  "split_ws_from tok [] = (if tok = [] then [] else [rev tok])"
| "split_ws_from tok (c # cs) =
     (if is_space c
      then (if tok = [] then split_ws_from [] cs else rev tok # split_ws_from [] cs)
      else split_ws_from (c # tok) cs)"

definition split_ws :: "string \<Rightarrow> string list" where
  \<comment> \<open>\<open>s.split()\<close>: the maximal runs of non-whitespace characters.\<close>
  "split_ws s = split_ws_from [] s"

fun split_char_from :: "char \<Rightarrow> string \<Rightarrow> string \<Rightarrow> string list" where
  "split_char_from sep tok [] = [rev tok]"
| "split_char_from sep tok (c # cs) =
     (if c = sep then rev tok # split_char_from sep [] cs
      else split_char_from sep (c # tok) cs)"

definition split_char :: "char \<Rightarrow> string \<Rightarrow> string list" where
  \<comment> \<open>\<open>s.split(sep)\<close> for a separator of one character: empty fields are kept.\<close>
  "split_char sep s = split_char_from sep [] s"

fun before_sep :: "string \<Rightarrow> string \<Rightarrow> string" where
  \<comment> \<open>\<open>s.split(sep)[0]\<close> for a non-empty separator: \<open>s\<close> up to the first \<open>sep\<close>.\<close>
  "before_sep sep [] = []"
| "before_sep sep (c # cs) = (if startswith (c # cs) sep then [] else c # before_sep sep cs)"

fun splitlines_from :: "string \<Rightarrow> string \<Rightarrow> string list" where
  "splitlines_from ln [] = (if ln = [] then [] else [rev ln])"
| "splitlines_from ln [c] =
     (if is_linebreak c then [rev ln] else [rev (c # ln)])"
| "splitlines_from ln (c # d # cs) =
     (if c = CR \<and> d = LF then rev ln # splitlines_from [] cs
      else if is_linebreak c then rev ln # splitlines_from [] (d # cs)
      else splitlines_from (c # ln) (d # cs))"

definition splitlines :: "string \<Rightarrow> string list" where
  \<comment> \<open>\<open>s.splitlines()\<close>: the lines without their terminators; a final terminator opens
      no further line.\<close>
  "splitlines s = splitlines_from [] s"

fun readlines_from :: "string \<Rightarrow> string \<Rightarrow> string list" where
  "readlines_from ln [] = (if ln = [] then [] else [rev ln])"
| "readlines_from ln [c] =
     (if c = LF \<or> c = CR then [rev (LF # ln)] else [rev (c # ln)])"
| "readlines_from ln (c # d # cs) =
     (if c = CR \<and> d = LF then rev (LF # ln) # readlines_from [] cs
      else if c = LF \<or> c = CR then rev (LF # ln) # readlines_from [] (d # cs)
      else readlines_from (c # ln) (d # cs))"

definition readlines :: "string \<Rightarrow> string list" where
  \<comment> \<open>Iterating a stream opened in text mode (\<open>for line in f\<close>, \<open>readline\<close> until
      \<open>""\<close>): universal newlines, each line keeps its terminator as LF.\<close>
  "readlines s = readlines_from [] s"

fun re_search_Collecting :: "string \<Rightarrow> string option" where
  \<comment> \<open>\<open>re.search(r"Collecting (\S+)", line)\<close>: group 1 of the leftmost match.\<close>
  "re_search_Collecting [] = None"
| "re_search_Collecting (c # cs) =
     (if startswith (c # cs) ''Collecting '' \<and> takeWhile (\<lambda>d. \<not> is_space d) (drop 11 (c # cs)) \<noteq> []
      then Some (takeWhile (\<lambda>d. \<not> is_space d) (drop 11 (c # cs)))
      else re_search_Collecting cs)"

definition re_split_ops0 :: "string \<Rightarrow> string" where
  \<comment> \<open>\<open>re.split(r"[=<>]", s)[0]\<close>: \<open>s\<close> up to its first \<open>=\<close>, \<open><\<close> or \<open>>\<close>.\<close>
  "re_split_ops0 s = takeWhile (\<lambda>c. c \<notin> {CHR ''='', CHR ''<'', CHR ''>''}) s"

fun str_of_nat :: "nat \<Rightarrow> string" where
  \<comment> \<open>\<open>str(n)\<close> for a non-negative integer.\<close>
  "str_of_nat n =
     (if n < 10 then [''0123456789'' ! n]
      else str_of_nat (n div 10) @ [''0123456789'' ! (n mod 10)])"

declare str_of_nat.simps [simp del]


section \<open>Exceptions\<close>

datatype py_error =
    SystemExit nat
  | ConnectionError
  | RequestException
  | FileNotFoundError
  | PermissionError
  | IsADirectoryError
  | CalledProcessError int
  | IndexError
  | UnboundLocalError
  | EOFError

definition index0 :: "'a list \<Rightarrow> py_error + 'a" where
  \<comment> \<open>\<open>xs[0]\<close>\<close>
  "index0 xs = (case xs of [] \<Rightarrow> Inl IndexError | x # _ \<Rightarrow> Inr x)"

definition index1 :: "'a list \<Rightarrow> py_error + 'a" where
  \<comment> \<open>\<open>xs[1]\<close>\<close>
  "index1 xs = (case xs of x # y # _ \<Rightarrow> Inr y | _ \<Rightarrow> Inl IndexError)"

fun map_raising :: "('a \<Rightarrow> py_error + 'b) \<Rightarrow> 'a list \<Rightarrow> py_error + 'b list" where
  \<comment> \<open>A comprehension or an appending loop whose element expression may raise: the first
      exception ends it.\<close>
  "map_raising f [] = Inr []"
| "map_raising f (x # xs) =
     (case f x of
        Inl e \<Rightarrow> Inl e
      | Inr y \<Rightarrow> (case map_raising f xs of Inl e \<Rightarrow> Inl e | Inr ys \<Rightarrow> Inr (y # ys)))"


section \<open>The world outside the program\<close>

text \<open>
  The program talks to a file system, a network, standard input and the commands it
  launches.  None of them is code of the repository: they are parameters.  A \<open>world\<close>
  fixes the platform and answers every request and every launched command; the \<open>state\<close>
  is what changes while the program runs, with the \<open>trace\<close> of what it did, in order.
\<close>

datatype fnode = Dir | File string

type_synonym filesystem = "string \<rightharpoonup> fnode"

datatype os_error = ENOENT | EACCES

datatype net_error = ConnectionFailed | OtherRequestFailure

record proc_result =
  returncode :: int
  stdout :: string
  stderr :: string
  fs_effect :: "filesystem \<Rightarrow> filesystem"

record world =
  os_name :: string
  os_path_join :: "string list \<Rightarrow> string"
  http_get :: "string \<Rightarrow> net_error + string"
  subprocess :: "nat \<Rightarrow> string list \<Rightarrow> os_error + proc_result"

text \<open>
  \<open>subprocess w n argv\<close> is what launching \<open>argv\<close> gives when \<open>n\<close> commands were launched
  before: the operating system's refusal to start it, or the finished process with its
  exit status, its output and what it did to the file system.
\<close>

datatype event =
    Print string
  | Prompt string
  | Spawn "string list"
  | HttpGet string
  | Sleep nat
  | PbarOpen "nat option" string
  | PbarDesc string
  | PbarUpdate nat
  | PbarClose

record state =
  fs :: filesystem
  stdin :: "string list"
  spawned :: nat
  trace :: "event list"

type_synonym 'a io = "state \<Rightarrow> (py_error + 'a) \<times> state"

definition ret :: "'a \<Rightarrow> 'a io" where
  "ret x s = (Inr x, s)"

definition raise :: "py_error \<Rightarrow> 'a io" where
  "raise e s = (Inl e, s)"

definition bnd :: "'a io \<Rightarrow> ('a \<Rightarrow> 'b io) \<Rightarrow> 'b io" where
  \<comment> \<open>\<open>x = m; f x\<close>: an exception of \<open>m\<close> skips \<open>f\<close>.\<close>
  "bnd m f s = (case m s of (Inl e, s') \<Rightarrow> (Inl e, s') | (Inr x, s') \<Rightarrow> f x s')"

definition seq :: "'a io \<Rightarrow> 'b io \<Rightarrow> 'b io" where
  "seq m k = bnd m (\<lambda>_. k)"

fun block :: "unit io list \<Rightarrow> unit io" where
  \<comment> \<open>A sequence of statements.\<close>
  "block [] = ret ()"
| "block (m # ms) = seq m (block ms)"

definition lift :: "py_error + 'a \<Rightarrow> 'a io" where
  \<comment> \<open>An expression that only computes, or raises.\<close>
  "lift r s = (r, s)"

definition try_except :: "'a io \<Rightarrow> py_error \<Rightarrow> 'a io \<Rightarrow> 'a io" where
  \<comment> \<open>\<open>try: m except e: h\<close>\<close>
  "try_except m e h s =
     (case m s of
        (Inl e', s') \<Rightarrow> if e' = e then h s' else (Inl e', s')
      | (Inr x, s') \<Rightarrow> (Inr x, s'))"

fun for_each :: "('a \<Rightarrow> unit io) \<Rightarrow> 'a list \<Rightarrow> unit io" where
  \<comment> \<open>\<open>for x in xs: f x\<close>\<close>
  "for_each f [] = ret ()"
| "for_each f (x # xs) = seq (f x) (for_each f xs)"

definition emit :: "event \<Rightarrow> unit io" where
  "emit e s = (Inr (), s\<lparr>trace := trace s @ [e]\<rparr>)"

definition print :: "string \<Rightarrow> unit io" where
  "print line = emit (Print line)"

definition input :: "string \<Rightarrow> string io" where
  \<comment> \<open>\<open>input(prompt)\<close>: the next line of standard input, \<open>EOFError\<close> at its end.\<close>
  "input prompt =
     seq (emit (Prompt prompt))
       (\<lambda>s. case stdin s of
               [] \<Rightarrow> (Inl EOFError, s)
             | l # ls \<Rightarrow> (Inr l, s\<lparr>stdin := ls\<rparr>))"

definition os_exception :: "os_error \<Rightarrow> py_error" where
  "os_exception e = (case e of ENOENT \<Rightarrow> FileNotFoundError | EACCES \<Rightarrow> PermissionError)"

definition Popen :: "world \<Rightarrow> string list \<Rightarrow> proc_result io" where
  \<comment> \<open>Launching a command and letting it run to its end.\<close>
  "Popen w argv s =
     (let s1 = s\<lparr>spawned := Suc (spawned s), trace := trace s @ [Spawn argv]\<rparr>
      in case subprocess w (spawned s) argv of
           Inl e \<Rightarrow> (Inl (os_exception e), s1)
         | Inr r \<Rightarrow> (Inr r, s1\<lparr>fs := fs_effect r (fs s1)\<rparr>))"

definition subprocess_run :: "world \<Rightarrow> bool \<Rightarrow> string list \<Rightarrow> proc_result io" where
  \<comment> \<open>\<open>subprocess.run(argv, check=check)\<close>\<close>
  "subprocess_run w check argv =
     bnd (Popen w argv) (\<lambda>r.
       if check \<and> returncode r \<noteq> 0 then raise (CalledProcessError (returncode r))
       else ret r)"

definition requests_get :: "world \<Rightarrow> string \<Rightarrow> string io" where
  "requests_get w url =
     seq (emit (HttpGet url))
       (case http_get w url of
          Inl ConnectionFailed \<Rightarrow> raise ConnectionError
        | Inl OtherRequestFailure \<Rightarrow> raise RequestException
        | Inr body \<Rightarrow> ret body)"

definition os_path_exists :: "string \<Rightarrow> bool io" where
  "os_path_exists path s = (Inr (fs s path \<noteq> None), s)"

definition open_read :: "string \<Rightarrow> string io" where
  \<comment> \<open>\<open>open(path, "r")\<close> and the whole content.\<close>
  "open_read path s =
     (case fs s path of
        None \<Rightarrow> (Inl FileNotFoundError, s)
      | Some Dir \<Rightarrow> (Inl IsADirectoryError, s)
      | Some (File content) \<Rightarrow> (Inr content, s))"

definition open_write :: "string \<Rightarrow> unit io" where
  \<comment> \<open>\<open>open(path, "w")\<close>: the file is created or emptied.\<close>
  "open_write path s =
     (case fs s path of
        Some Dir \<Rightarrow> (Inl IsADirectoryError, s)
      | _ \<Rightarrow> (Inr (), s\<lparr>fs := (fs s)(path \<mapsto> File [])\<rparr>))"

definition file_write :: "string \<Rightarrow> string \<Rightarrow> unit io" where
  \<comment> \<open>Writing to the open file at \<open>path\<close>.\<close>
  "file_write path content s = (Inr (), s\<lparr>fs := (fs s)(path \<mapsto> File content)\<rparr>)"

definition os_remove :: "string \<Rightarrow> unit io" where
  "os_remove path s =
     (case fs s path of
        None \<Rightarrow> (Inl FileNotFoundError, s)
      | Some Dir \<Rightarrow> (Inl IsADirectoryError, s)
      | Some (File _) \<Rightarrow> (Inr (), s\<lparr>fs := (fs s)(path := None)\<rparr>))"

definition with_tqdm :: "nat option \<Rightarrow> string \<Rightarrow> 'a io \<Rightarrow> 'a io" where
  \<comment> \<open>\<open>with tqdm(total=total, desc=desc, ...) as pbar: body\<close>: the bar is closed however
      the body ends.\<close>
  "with_tqdm tot desc body s =
     (case body (snd (emit (PbarOpen tot desc) s)) of
        (r, s') \<Rightarrow> (r, snd (emit PbarClose s')))"


section \<open>The program\<close>

text \<open>
  The functions of \<open>PENVCreator.py\<close>, in the order of the file.  A progress bar shows
  in the trace as the events \<open>PbarOpen\<close>, \<open>PbarDesc\<close> (\<open>set_description\<close>),
  \<open>PbarUpdate\<close> and \<open>PbarClose\<close>.
\<close>

definition PYTHON_VERSION :: string where
  "PYTHON_VERSION = ''3.10.6''"

definition PYTHON_INSTALLER :: string where
  "PYTHON_INSTALLER = ''python-'' @ PYTHON_VERSION @ ''-amd64.exe''"

definition PYTHON_URL :: string where
  "PYTHON_URL =
     ''https://www.python.org/ftp/python/'' @ PYTHON_VERSION @ ''/'' @ PYTHON_INSTALLER"

definition PYTHON_INSTALL_PATH :: "world \<Rightarrow> string" where
  "PYTHON_INSTALL_PATH w =
     (if os_name w = ''nt'' then ''C:'' @ [CHR 0x5C] @ ''Python310''
      else ''/usr/local/bin/python3'')"

definition quote :: string where
  \<comment> \<open>The character \<open>'\<close> of the messages.\<close>
  "quote = [CHR 0x27]"

definition log :: "string \<Rightarrow> unit io" where
  "log message = print (''[INFO] '' @ message)"

definition get_python_executable :: "world \<Rightarrow> string \<Rightarrow> string" where
  "get_python_executable w venv_name =
     (if os_name w = ''nt'' then os_path_join w [venv_name, ''Scripts'', ''python.exe'']
      else os_path_join w [venv_name, ''bin'', ''python''])"

definition check_python :: "world \<Rightarrow> bool io" where
  "check_python w =
     try_except
       (seq (subprocess_run w True [''python'', ''--version''])
         (seq (log ''Python is already installed.'')
           (ret True)))
       FileNotFoundError
       (ret False)"

definition download_python :: "world \<Rightarrow> unit io" where
  "download_python w =
     seq (log (''Downloading '' @ PYTHON_INSTALLER @ ''...''))
       (bnd (requests_get w PYTHON_URL) (\<lambda>response.
          block
            [open_write PYTHON_INSTALLER,
             file_write PYTHON_INSTALLER response,
             log ''Python installer downloaded.'']))"

definition install_python :: "world \<Rightarrow> unit io" where
  "install_python w =
     block
       [log ''Installing Python...'',
        seq (subprocess_run w True
               [PYTHON_INSTALLER, ''/quiet'', ''InstallAllUsers=1'', ''PrependPath=1'',
                ''TargetDir='' @ PYTHON_INSTALL_PATH w])
          (ret ()),
        os_remove PYTHON_INSTALLER,
        log ''Python installed successfully!'']"

definition create_virtual_env :: "world \<Rightarrow> string \<Rightarrow> unit io" where
  "create_virtual_env w venv_name =
     block
       [log (''Creating virtual environment: '' @ venv_name @ ''...''),
        seq (subprocess_run w True [''python'', ''-m'', ''venv'', venv_name]) (ret ()),
        log (''Virtual environment '' @ quote @ venv_name @ quote @ '' created successfully.'')]"

definition installed_packages :: "string \<Rightarrow> py_error + string list" where
  \<comment> \<open>The set comprehension of lines 75 and 143 over the output of \<open>pip list\<close>; the set
      is kept as the list of its elements.\<close>
  "installed_packages out =
     map_raising (\<lambda>line. map_sum id lower (index0 (split_ws line)))
       (filter (\<lambda>line. strip line \<noteq> []) (drop 2 (splitlines out)))"

definition is_package_installed :: "world \<Rightarrow> string \<Rightarrow> string \<Rightarrow> bool io" where
  "is_package_installed w venv_name package_name =
     (let python_executable = get_python_executable w venv_name
      in bnd (subprocess_run w False [python_executable, ''-m'', ''pip'', ''list'']) (\<lambda>result.
         bnd (lift (installed_packages (stdout result))) (\<lambda>installed.
         ret (lower package_name \<in> set installed))))"

fun install_package_loop :: "string list \<Rightarrow> string option \<Rightarrow> string option io" where
  \<comment> \<open>Lines 98 to 104; the second argument is \<open>current_package\<close>, \<open>None\<close> while it is
      unbound.\<close>
  "install_package_loop [] current_package = ret current_package"
| "install_package_loop (line # rest) current_package =
     (case re_search_Collecting (strip line) of
        Some name \<Rightarrow>
          seq (emit (PbarDesc (''Installing: '' @ name)))
         (seq (emit (PbarUpdate 1))
              (install_package_loop rest (Some name)))
      | None \<Rightarrow> install_package_loop rest current_package)"

definition read_local :: "'a option \<Rightarrow> 'a io" where
  \<comment> \<open>Reading a local variable that may be unbound.\<close>
  "read_local v = (case v of None \<Rightarrow> raise UnboundLocalError | Some x \<Rightarrow> ret x)"

definition install_package :: "world \<Rightarrow> string \<Rightarrow> string \<Rightarrow> unit io" where
  "install_package w venv_name package_name =
     (let python_executable = get_python_executable w venv_name
      in bnd (is_package_installed w venv_name package_name) (\<lambda>already.
         if already then log (''ERROR: '' @ package_name @ '' (skipped, already installed)'')
         else
           seq (log (''Installing: '' @ package_name @ ''...''))
          (bnd (Popen w [python_executable, ''-m'', ''pip'', ''install'', package_name]) (\<lambda>process.
           bnd (with_tqdm None (''Installing '' @ package_name)
                  (install_package_loop (readlines (stdout process)) None)) (\<lambda>current_package.
           if returncode process = 0
           then bnd (read_local current_package) (\<lambda>name.
                  emit (PbarDesc (''Installing: '' @ name @ '' (success)'')))
           else bnd (read_local current_package) (\<lambda>name.
                  emit (PbarDesc (''Installing: '' @ name @ '' (failed)''))))))))"

definition marker_label :: "string \<Rightarrow> py_error + string" where
  \<comment> \<open>\<open>stdout_line.split(' ')[1].split('[')[0].strip()\<close>\<close>
  "marker_label stdout_line =
     (case index1 (split_char (CHR '' '') stdout_line) of
        Inl e \<Rightarrow> Inl e
      | Inr word \<Rightarrow> map_sum id strip (index0 (split_char (CHR ''['') word)))"

definition parse_requirements :: "string \<Rightarrow> string list" where
  \<comment> \<open>Lines 123 to 126, over the content of the file.\<close>
  "parse_requirements content =
     map (\<lambda>line. re_split_ops0 (strip line))
       (filter (\<lambda>line. strip line \<noteq> [] \<and> \<not> startswith line ''#'') (readlines content))"

definition requirements_line :: "string \<Rightarrow> unit io" where
  \<comment> \<open>The body of the loop of lines 168 to 173.\<close>
  "requirements_line stdout_line =
     seq (if contains (strip stdout_line) ''Collecting''
          then bnd (lift (marker_label (strip stdout_line))) (\<lambda>current_pkg.
                 emit (PbarDesc (''Installing: '' @ current_pkg)))
          else ret ())
       (emit (PbarUpdate 1))"

definition install_from_requirements :: "world \<Rightarrow> string \<Rightarrow> string \<Rightarrow> unit io" where
  "install_from_requirements w venv_name requirements_file =
     bnd (os_path_exists requirements_file) (\<lambda>found.
     if \<not> found then log (''ERROR: '' @ quote @ requirements_file @ quote @ '' not found.'')
     else
       bnd (open_read requirements_file) (\<lambda>content.
       let packages = parse_requirements content
       in if packages = [] then log ''No valid packages found in requirements.txt.''
          else
            seq (log ''Checking for installed packages before installation...'')
           (let python_executable = get_python_executable w venv_name
            in bnd (subprocess_run w False [python_executable, ''-m'', ''pip'', ''list'']) (\<lambda>result.
               bnd (lift (installed_packages (stdout result))) (\<lambda>installed.
               let to_install = filter (\<lambda>pkg. lower pkg \<notin> set installed) packages;
                   already_installed = filter (\<lambda>pkg. lower pkg \<in> set installed) packages
               in seq (for_each (\<lambda>pkg. log (''INFO: '' @ pkg @ '' is already installed (skipping)''))
                         already_installed)
                  (if to_install = []
                   then log ''All required packages are already installed. Nothing to install.''
                   else
                     seq (log (''Installing '' @ str_of_nat (length to_install) @ '' packages from ''
                                @ quote @ requirements_file @ quote @ ''...''))
                    (bnd (Popen w [python_executable, ''-m'', ''pip'', ''install'', ''-r'',
                                   requirements_file]) (\<lambda>process.
                     seq (with_tqdm None ''Installing packages''
                            (for_each requirements_line (readlines (stdout process))))
                       (if returncode process = 0 then log ''Installation process complete.''
                        else log ''ERROR: Installation failed for some packages. Check the output for details.'')))))))))"

definition marker_line :: "string \<Rightarrow> string \<Rightarrow> string \<Rightarrow> unit io" where
  \<comment> \<open>The body of the loops over the output of an uninstall or upgrade command (lines
      197 to 200, 234 to 237 and 295 to 298): a line that holds the marker sets the
      description.\<close>
  "marker_line marker label stdout_line =
     (if contains stdout_line marker
      then bnd (lift (marker_label stdout_line)) (\<lambda>package_name_clean.
             emit (PbarDesc (label @ package_name_clean)))
      else ret ())"

definition drain :: "string \<Rightarrow> unit io" where
  \<comment> \<open>\<open>for stderr_line in process.stderr: pass\<close>\<close>
  "drain err = for_each (\<lambda>stderr_line. ret ()) (readlines err)"

definition remove_package :: "world \<Rightarrow> string \<Rightarrow> string \<Rightarrow> unit io" where
  "remove_package w venv_name package_name =
     (let python_executable = get_python_executable w venv_name
      in seq (log (''Removing package: '' @ package_name @ ''...''))
        (bnd (Popen w [python_executable, ''-m'', ''pip'', ''uninstall'', ''-y'', package_name]) (\<lambda>process.
         seq (with_tqdm (Some 1) (''Removing '' @ package_name)
                (block
                   [for_each (marker_line ''Uninstalling'' ''Removing: '') (readlines (stdout process)),
                    drain (stderr process),
                    emit (PbarUpdate 1)]))
           (log (''Package '' @ quote @ package_name @ quote @ '' removed successfully.'')))))"

definition remove_all_packages :: "world \<Rightarrow> string \<Rightarrow> unit io" where
  "remove_all_packages w venv_name =
     (let python_executable = get_python_executable w venv_name
      in seq (log ''Removing all installed packages...'')
        (bnd (subprocess_run w False [python_executable, ''-m'', ''pip'', ''freeze'']) (\<lambda>result.
         let packages = map (before_sep ''=='') (splitlines (stdout result))
         in if packages = [] then log ''No packages to remove.''
            else
              seq (with_tqdm (Some (length packages)) ''Removing packages''
                     (for_each (\<lambda>package.
                        bnd (Popen w [python_executable, ''-m'', ''pip'', ''uninstall'', ''-y'', package]) (\<lambda>process.
                        block
                          [for_each (marker_line ''Uninstalling'' ''Removing: '') (readlines (stdout process)),
                           drain (stderr process),
                           emit (PbarUpdate 1)]))
                        packages))
                (log ''All packages removed successfully.''))))"

definition update_packages :: "world \<Rightarrow> string \<Rightarrow> string list \<Rightarrow> unit io" where
  "update_packages w venv_name packages =
     (let python_executable = get_python_executable w venv_name
      in seq (with_tqdm (Some (length packages)) ''Updating packages''
                (for_each (\<lambda>package.
                   bnd (Popen w [python_executable, ''-m'', ''pip'', ''install'', ''--upgrade'', package]) (\<lambda>process.
                   block
                     [for_each (marker_line ''Collecting'' ''Updating: '') (readlines (stdout process)),
                      drain (stderr process),
                      emit (PbarUpdate 1)]))
                   packages))
           (log ''All selected packages updated successfully.''))"

definition outdated_names :: "string list \<Rightarrow> py_error + string list" where
  \<comment> \<open>Lines 261 to 267: \<open>outdated_packages\<close> from the lines of the output.\<close>
  "outdated_names lines =
     (if length lines > 2 then map_raising (\<lambda>line. index0 (split_ws line)) (drop 2 lines)
      else Inr [])"

definition check_for_updates :: "world \<Rightarrow> string \<Rightarrow> unit io" where
  "check_for_updates w venv_name =
     (let python_executable = get_python_executable w venv_name
      in seq (log ''Checking for outdated packages...'')
        (bnd (subprocess_run w False [python_executable, ''-m'', ''pip'', ''list'', ''--outdated'']) (\<lambda>result.
         bnd (lift (outdated_names (splitlines (stdout result)))) (\<lambda>outdated_packages.
         if outdated_packages = [] then log ''All packages are up to date.''
         else
           seq (log (''Found '' @ str_of_nat (length outdated_packages) @ '' outdated package(s).''))
          (bnd (input ''Do you want to update all outdated packages? (y/n): '') (\<lambda>answer.
           if lower (strip answer) = ''y'' then update_packages w venv_name outdated_packages
           else ret ()))))))"

definition check_internet :: "world \<Rightarrow> bool io" where
  "check_internet w =
     try_except
       (seq (requests_get w ''https://www.google.com'') (ret True))
       ConnectionError
       (ret False)"


definition menu_dispatch :: "world \<Rightarrow> string \<Rightarrow> string \<Rightarrow> bool io" where
  \<comment> \<open>The \<open>if\<close> chain of lines 351 to 382 on the choice read; \<open>False\<close> is the
      \<open>break\<close>.\<close>
  "menu_dispatch w venv_name choice =
    (if choice = ''1'' then
       bnd (input ''Enter package name to install: '') (\<lambda>line.
       let package_name = strip line
       in seq (if package_name \<noteq> [] then install_package w venv_name package_name else ret ())
            (ret True))
     else if choice = ''2'' then
       bnd (input ''Enter package name to remove: '') (\<lambda>line.
       let package_name = strip line
       in seq (if package_name \<noteq> [] then remove_package w venv_name package_name else ret ())
            (ret True))
     else if choice = ''3'' then
       bnd (input ''Are you sure you want to remove all packages? (y/n): '') (\<lambda>line.
       let confirm = lower (strip line)
       in seq (if confirm = ''y'' then remove_all_packages w venv_name else ret ())
            (ret True))
     else if choice = ''4'' then
       bnd (input ''Enter the path to requirements.txt: '') (\<lambda>line.
       let requirements_file = strip line
       in seq (if requirements_file \<noteq> []
               then install_from_requirements w venv_name requirements_file else ret ())
            (ret True))
     else if choice = ''5'' then
       (let python_executable = get_python_executable w venv_name
        in seq (subprocess_run w False [python_executable, ''-m'', ''pip'', ''list''])
             (ret True))
     else if choice = ''6'' then
       seq (block
              [log ''Generating requirements.txt...'',
               open_write ''requirements.txt'',
               (let python_executable = get_python_executable w venv_name
                in bnd (subprocess_run w False [python_executable, ''-m'', ''pip'', ''freeze''])
                     (\<lambda>result. file_write ''requirements.txt'' (stdout result))),
               log ''requirements.txt created successfully.''])
         (ret True)
     else if choice = ''7'' then
       seq (check_for_updates w venv_name) (ret True)
     else if choice = ''8'' then
       seq (log ''Exiting... Goodbye!'') (ret False)
     else
       seq (log ''Invalid choice. Please enter a number between 1 and 8.'') (ret True))"

definition menu_iteration :: "world \<Rightarrow> string \<Rightarrow> bool io" where
  \<comment> \<open>One turn of the loop of lines 339 to 382.\<close>
  "menu_iteration w venv_name =
     seq (block
            [print ([LF] @ ''Choose an option:''),
             print ''[1] Install a package'',
             print ''[2] Remove a package'',
             print ''[3] Remove all packages'',
             print ''[4] Install from requirements.txt'',
             print ''[5] List installed packages'',
             print ''[6] Generate requirements.txt'',
             print ''[7] Check for updates'',
             print ''[8] Exit''])
    (bnd (input ''Enter your choice (1-8): '') (\<lambda>line.
     menu_dispatch w venv_name (strip line)))"

function menu_loop :: "world \<Rightarrow> string \<Rightarrow> unit io" where
  \<comment> \<open>\<open>while True:\<close> of line 339.\<close>
  "menu_loop w venv_name s =
     (case menu_iteration w venv_name s of
        (Inl e, s') \<Rightarrow> (Inl e, s')
      | (Inr again, s') \<Rightarrow> if again then menu_loop w venv_name s' else (Inr (), s'))"
  by pat_completeness auto

definition main_create_env :: "world \<Rightarrow> string \<Rightarrow> unit io" where
  \<comment> \<open>Lines 334 and 335 of \<open>main\<close>.\<close>
  "main_create_env w venv_name =
     bnd (os_path_exists venv_name) (\<lambda>found.
     if \<not> found then create_virtual_env w venv_name else ret ())"

definition main_provision :: "world \<Rightarrow> string io" where
  \<comment> \<open>Lines 320 to 332 of \<open>main\<close>: the connectivity check, the runtime and the name of
      the environment, which is the result.\<close>
  "main_provision w =
     bnd (check_internet w) (\<lambda>online.
     seq (if \<not> online
          then block
                 [log ''ERROR: PENVCreator requires an internet connection to function.'',
                  log ''Please check your connection and try again.'',
                  emit (Sleep 3),
                  raise (SystemExit 1)]
          else ret ())
    (bnd (check_python w) (\<lambda>present.
     seq (if \<not> present
          then block
                 [log ''Python is not installed. Downloading and installing...'',
                  download_python w,
                  install_python w]
          else ret ())
    (bnd (input ''Enter the virtual environment name (default: venv): '') (\<lambda>line.
     ret (if strip line = [] then ''venv'' else strip line))))))"

definition main :: "world \<Rightarrow> unit io" where
  "main w =
     bnd (main_provision w) (\<lambda>venv_name.
     seq (main_create_env w venv_name)
    (seq (check_for_updates w venv_name)
         (menu_loop w venv_name)))"

definition exit_status :: "(py_error + unit) \<Rightarrow> nat" where
  \<comment> \<open>The exit status of the interpreter running \<open>main()\<close>: 0 when it returns, the
      argument of \<open>sys.exit\<close>, 1 after any other exception that nothing caught.\<close>
  "exit_status r = (case r of Inr _ \<Rightarrow> 0 | Inl (SystemExit n) \<Rightarrow> n | Inl _ \<Rightarrow> 1)"


section \<open>Observing a run\<close>

definition events_of :: "'a io \<Rightarrow> state \<Rightarrow> event list" where
  \<comment> \<open>What running \<open>m\<close> from \<open>s\<close> adds to the trace.\<close>
  "events_of m s = drop (length (trace s)) (trace (snd (m s)))"

fun spawns :: "event list \<Rightarrow> string list list" where
  \<comment> \<open>The commands launched, in order.\<close>
  "spawns [] = []"
| "spawns (Spawn argv # es) = argv # spawns es"
| "spawns (e # es) = spawns es"

fun prompts :: "event list \<Rightarrow> string list" where
  \<comment> \<open>The questions asked on standard input, in order.\<close>
  "prompts [] = []"
| "prompts (Prompt p # es) = p # prompts es"
| "prompts (e # es) = prompts es"

fun progress :: "event list \<Rightarrow> nat" where
  \<comment> \<open>How far the events move a progress bar.\<close>
  "progress [] = 0"
| "progress (PbarUpdate n # es) = n + progress es"
| "progress (e # es) = progress es"

fun venv_creation :: "event \<Rightarrow> bool" where
  \<comment> \<open>The command of \<open>create_virtual_env\<close>.\<close>
  "venv_creation (Spawn argv) =
     (length argv = 4 \<and> take 3 argv = [''python'', ''-m'', ''venv''])"
| "venv_creation e = False"

abbreviation (input) no_venv :: "event \<Rightarrow> bool" where
  "no_venv \<equiv> \<lambda>e. \<not> venv_creation e"

abbreviation (input) no_exit :: "py_error \<Rightarrow> bool" where
  "no_exit \<equiv> \<lambda>e. \<forall>n. e \<noteq> SystemExit n"

definition tame :: "(py_error \<Rightarrow> bool) \<Rightarrow> (event \<Rightarrow> bool) \<Rightarrow> 'a io \<Rightarrow> bool" where
  \<comment> \<open>Whatever the state, \<open>m\<close> only consumes standard input, raises only exceptions of
      the kind \<open>X\<close>, and only adds events of the kind \<open>P\<close> to the trace.\<close>
  "tame X P m \<longleftrightarrow>
     (\<forall>s. case m s of
            (r, s') \<Rightarrow>
              length (stdin s') \<le> length (stdin s) \<and>
              (case r of Inl e \<Rightarrow> X e | Inr x \<Rightarrow> True) \<and>
              (\<exists>es. trace s' = trace s @ es \<and> list_all P es))"

fun is_spawn :: "event \<Rightarrow> bool" where
  "is_spawn (Spawn argv) = True"
| "is_spawn e = False"

definition with_exits ::
  "world \<Rightarrow> (nat \<Rightarrow> string list \<Rightarrow> int) \<Rightarrow> (nat \<Rightarrow> string list \<Rightarrow> string) \<Rightarrow> world" where
  \<comment> \<open>The world \<open>w\<close> with other exit statuses and other error streams for its
      commands.\<close>
  "with_exits w rc err =
     w\<lparr>subprocess := \<lambda>n argv.
          map_sum id (\<lambda>r. r\<lparr>returncode := rc n argv, stderr := err n argv\<rparr>)
            (subprocess w n argv)\<rparr>"

definition listed_names :: "string \<Rightarrow> string list" where
  \<comment> \<open>The package names of a listing: the first whitespace-delimited token of every
      line after the two header lines that has one.\<close>
  "listed_names out = concat (map (\<lambda>line. take 1 (split_ws line)) (drop 2 (splitlines out)))"


section \<open>Concrete worlds\<close>

fun posix_join :: "string list \<Rightarrow> string" where
  \<comment> \<open>\<open>posixpath.join\<close>\<close>
  "posix_join [] = []"
| "posix_join [p] = p"
| "posix_join (p # q # ps) =
     posix_join
       ((if startswith q ''/'' then q
         else if p = [] \<or> last p = CHR ''/'' then p @ q
         else p @ ''/'' @ q) # ps)"

definition exited :: "int \<Rightarrow> string \<Rightarrow> string \<Rightarrow> proc_result" where
  \<comment> \<open>A process that leaves the file system as it was.\<close>
  "exited rc out err = \<lparr>returncode = rc, stdout = out, stderr = err, fs_effect = (\<lambda>f. f)\<rparr>"

definition posix_world :: "(string list \<times> proc_result) list \<Rightarrow> world" where
  \<comment> \<open>A POSIX machine with a network, on which exactly the listed commands can be
      launched.\<close>
  "posix_world commands =
     \<lparr>os_name = ''posix'',
      os_path_join = posix_join,
      http_get = (\<lambda>url. Inr []),
      subprocess = (\<lambda>n argv. case map_of commands argv of
                                None \<Rightarrow> Inl ENOENT
                              | Some r \<Rightarrow> Inr r)\<rparr>"

definition start :: "(string \<times> fnode) list \<Rightarrow> string list \<Rightarrow> state" where
  \<comment> \<open>The state in which a run starts.\<close>
  "start files lines = \<lparr>fs = map_of files, stdin = lines, spawned = 0, trace = []\<rparr>"

definition unlines :: "string list \<Rightarrow> string" where
  "unlines ls = concat (map (\<lambda>l. l @ [LF]) ls)"


definition venv_python :: string where
  "venv_python = ''venv/bin/python''"

definition listing :: string where
  \<comment> \<open>An output of \<open>pip list\<close>.\<close>
  "listing =
     unlines
       [''Package    Version'',
        ''---------- -------'',
        ''numpy      1.26.0'',
        ''requests   2.31.0'']"

definition outdated_header :: string where
  \<comment> \<open>The two header lines of \<open>pip list --outdated\<close>.\<close>
  "outdated_header =
     unlines
       [''Package Version Latest Type'',
        ''------- ------- ------ -----'']"

definition outdated_with_blank :: string where
  "outdated_with_blank =
     unlines
       [''Package Version Latest Type'',
        ''------- ------- ------ -----'',
        [],
        ''numpy   1.26.0  2.0.0  wheel'']"

definition up_to_date_world :: world where
  "up_to_date_world =
     posix_world
       [([venv_python, ''-m'', ''pip'', ''list'', ''--outdated''], exited 0 outdated_header []),
        ([venv_python, ''-m'', ''pip'', ''list''], exited 0 listing [])]"

definition blank_line_world :: world where
  "blank_line_world =
     posix_world
       [([venv_python, ''-m'', ''pip'', ''list'', ''--outdated''], exited 0 outdated_with_blank []),
        ([venv_python, ''-m'', ''pip'', ''list''], exited 0 outdated_with_blank [])]"

definition satisfied_world :: world where
  \<comment> \<open>\<open>pip install six\<close> finds the package outside the environment and collects
      nothing.\<close>
  "satisfied_world =
     posix_world
       [([venv_python, ''-m'', ''pip'', ''list''], exited 0 listing []),
        ([venv_python, ''-m'', ''pip'', ''install'', ''six''],
         exited 0 (unlines [''Requirement already satisfied: six in /usr/lib/python3/dist-packages'']) [])]"


definition failing_world :: world where
  \<comment> \<open>Uninstalling and upgrading \<open>numpy\<close> fail: the commands exit with status 1 and an
      error message.\<close>
  "failing_world =
     posix_world
       [([venv_python, ''-m'', ''pip'', ''freeze''], exited 0 (unlines [''numpy==1.26.0'']) []),
        ([venv_python, ''-m'', ''pip'', ''uninstall'', ''-y'', ''numpy''],
         exited 1 [] (unlines [''ERROR: Cannot uninstall numpy''])),
        ([venv_python, ''-m'', ''pip'', ''install'', ''--upgrade'', ''numpy''],
         exited 1 [] (unlines [''ERROR: No matching distribution found for numpy'']))]"

section \<open>Rules for \<open>tame\<close>\<close>

named_theorems tame_intros

lemma tameD:
  assumes "tame X P m" and "m s = (r, s')"
  shows "length (stdin s') \<le> length (stdin s)"
    and "r = Inl e \<Longrightarrow> X e"
    and "\<exists>es. trace s' = trace s @ es \<and> list_all P es"
  using assms unfolding tame_def by (force split: prod.splits sum.splits)+

lemma tameI:
  assumes "\<And>s r s'. m s = (r, s') \<Longrightarrow>
             length (stdin s') \<le> length (stdin s) \<and> (case r of Inl e \<Rightarrow> X e | Inr x \<Rightarrow> True) \<and>
             (\<exists>es. trace s' = trace s @ es \<and> list_all P es)"
  shows "tame X P m"
  unfolding tame_def using assms by (auto split: prod.splits)

lemma tame_weaken:
  assumes "tame X P m" and "\<And>e. X e \<Longrightarrow> Y e" and "\<And>e. P e \<Longrightarrow> Q e"
  shows "tame Y Q m"
proof (rule tameI)
  fix s r s'
  assume m: "m s = (r, s')"
  from tameD(3) [OF assms(1) m] obtain es where "trace s' = trace s @ es" "list_all P es"
    by blast
  then have "\<exists>es. trace s' = trace s @ es \<and> list_all Q es"
    using assms(3) by (auto simp: list_all_iff)
  moreover have "case r of Inl e \<Rightarrow> Y e | Inr x \<Rightarrow> True"
    using tameD(2) [OF assms(1) m] assms(2) by (auto split: sum.splits)
  ultimately
  show "length (stdin s') \<le> length (stdin s) \<and> (case r of Inl e \<Rightarrow> Y e | Inr x \<Rightarrow> True) \<and>
        (\<exists>es. trace s' = trace s @ es \<and> list_all Q es)"
    using tameD(1) [OF assms(1) m] by blast
qed

lemma tame_ret [tame_intros]: "tame X P (ret x)"
  by (simp add: tame_def ret_def)

lemma tame_raise [tame_intros]: "X e \<Longrightarrow> tame X P (raise e)"
  by (simp add: tame_def raise_def)

lemma tame_lift: "(\<And>e. r = Inl e \<Longrightarrow> X e) \<Longrightarrow> tame X P (lift r)"
  by (simp add: tame_def lift_def split: sum.splits)

lemma tame_lift_index [tame_intros]:
  "(\<And>e. r = Inl e \<Longrightarrow> e = IndexError) \<Longrightarrow> X IndexError \<Longrightarrow> tame X P (lift r)"
  by (rule tame_lift) auto

lemma tame_bnd [tame_intros]:
  assumes "tame X P m" and "\<And>x. tame X P (f x)"
  shows "tame X P (bnd m f)"
proof (rule tameI)
  fix s r s'
  assume b: "bnd m f s = (r, s')"
  obtain r1 s1 where m: "m s = (r1, s1)" by (cases "m s")
  note d1 = tameD [OF assms(1) m]
  show "length (stdin s') \<le> length (stdin s) \<and> (case r of Inl e \<Rightarrow> X e | Inr x \<Rightarrow> True) \<and>
        (\<exists>es. trace s' = trace s @ es \<and> list_all P es)"
  proof (cases r1)
    case (Inl e)
    with m b have "r = Inl e" "s' = s1" by (simp_all add: bnd_def)
    with Inl d1(1,3) d1(2) [of e] show ?thesis by simp
  next
    case (Inr x)
    with m b have f: "f x s1 = (r, s')" by (simp add: bnd_def)
    note d2 = tameD [OF assms(2) f]
    from d1(3) obtain es1 where e1: "trace s1 = trace s @ es1" "list_all P es1" by blast
    from d2(3) obtain es2 where e2: "trace s' = trace s1 @ es2" "list_all P es2" by blast
    have "trace s' = trace s @ (es1 @ es2) \<and> list_all P (es1 @ es2)"
      using e1 e2 by simp
    then have "\<exists>es. trace s' = trace s @ es \<and> list_all P es" by blast
    moreover have "case r of Inl e \<Rightarrow> X e | Inr x \<Rightarrow> True"
      using d2(2) by (auto split: sum.splits)
    ultimately show ?thesis using d1(1) d2(1) by simp
  qed
qed

lemma tame_seq [tame_intros]: "tame X P m \<Longrightarrow> tame X P k \<Longrightarrow> tame X P (seq m k)"
  by (simp add: seq_def tame_bnd)

lemma tame_if [tame_intros]:
  "(c \<Longrightarrow> tame X P a) \<Longrightarrow> (\<not> c \<Longrightarrow> tame X P b) \<Longrightarrow> tame X P (if c then a else b)"
  by simp

lemma tame_for_each [tame_intros]: "(\<And>x. tame X P (f x)) \<Longrightarrow> tame X P (for_each f xs)"
  by (induction xs) (simp_all add: tame_ret tame_seq)

lemma tame_try_except [tame_intros]:
  assumes "tame X P m" and "tame X P h"
  shows "tame X P (try_except m e h)"
proof -
  let ?A = "\<lambda>s. case m s of
                   (Inl e', s') \<Rightarrow> if e' = e then (Inr None, s') else (Inl e', s')
                 | (Inr x, s') \<Rightarrow> (Inr (Some x), s')"
  let ?B = "\<lambda>v. case v of None \<Rightarrow> h | Some x \<Rightarrow> ret x"
  have eq: "try_except m e h = bnd ?A ?B"
    by (auto simp: bnd_def try_except_def ret_def fun_eq_iff split: prod.splits sum.splits)
  have A: "tame X P ?A"
    using assms(1) unfolding tame_def by (auto split: prod.splits sum.splits)
  have B: "\<And>v. tame X P (?B v)"
    using assms(2) by (simp add: tame_ret split: option.splits)
  have "tame X P (bnd ?A ?B)" using A B by (rule tame_bnd)
  then show ?thesis by (simp only: eq)
qed

lemma tame_emit [tame_intros]: "P e \<Longrightarrow> tame X P (emit e)"
  by (simp add: tame_def emit_def)

lemma tame_print [tame_intros]: "P (Print l) \<Longrightarrow> tame X P (print l)"
  by (simp add: print_def tame_emit)

lemma tame_log [tame_intros]: "P (Print (''[INFO] '' @ l)) \<Longrightarrow> tame X P (log l)"
  by (simp add: log_def tame_print)

lemma tame_input [tame_intros]: "X EOFError \<Longrightarrow> P (Prompt p) \<Longrightarrow> tame X P (input p)"
  by (auto simp: tame_def input_def seq_def bnd_def emit_def split: list.splits)

lemma tame_Popen [tame_intros]:
  "X FileNotFoundError \<Longrightarrow> X PermissionError \<Longrightarrow> P (Spawn argv) \<Longrightarrow> tame X P (Popen w argv)"
  by (auto simp: tame_def Popen_def Let_def os_exception_def split: sum.splits os_error.splits)

lemma tame_subprocess_run [tame_intros]:
  "X FileNotFoundError \<Longrightarrow> X PermissionError \<Longrightarrow> (\<And>c. X (CalledProcessError c)) \<Longrightarrow>
   P (Spawn argv) \<Longrightarrow> tame X P (subprocess_run w check argv)"
  by (auto simp: subprocess_run_def intro!: tame_intros)

lemma tame_requests_get [tame_intros]:
  "X ConnectionError \<Longrightarrow> X RequestException \<Longrightarrow> P (HttpGet url) \<Longrightarrow>
   tame X P (requests_get w url)"
  by (auto simp: requests_get_def intro!: tame_intros split: sum.splits net_error.splits)

lemma tame_os_path_exists [tame_intros]: "tame X P (os_path_exists p)"
  by (simp add: tame_def os_path_exists_def)

lemma tame_open_read [tame_intros]:
  "X FileNotFoundError \<Longrightarrow> X IsADirectoryError \<Longrightarrow> tame X P (open_read p)"
  by (auto simp: tame_def open_read_def split: option.splits fnode.splits)

lemma tame_open_write [tame_intros]: "X IsADirectoryError \<Longrightarrow> tame X P (open_write p)"
  by (auto simp: tame_def open_write_def split: option.splits fnode.splits)

lemma tame_file_write [tame_intros]: "tame X P (file_write p c)"
  by (simp add: tame_def file_write_def)

lemma tame_os_remove [tame_intros]:
  "X FileNotFoundError \<Longrightarrow> X IsADirectoryError \<Longrightarrow> tame X P (os_remove p)"
  by (auto simp: tame_def os_remove_def split: option.splits fnode.splits)

lemma tame_with_tqdm [tame_intros]:
  assumes "tame X P body" and "P (PbarOpen t d)" and "P PbarClose"
  shows "tame X P (with_tqdm t d body)"
proof (rule tameI)
  fix s r s'
  assume w: "with_tqdm t d body s = (r, s')"
  let ?s0 = "s\<lparr>trace := trace s @ [PbarOpen t d]\<rparr>"
  obtain r1 s1 where b: "body ?s0 = (r1, s1)" by (cases "body ?s0")
  from w b have r: "r = r1" and s': "s' = s1\<lparr>trace := trace s1 @ [PbarClose]\<rparr>"
    by (simp_all add: with_tqdm_def emit_def)
  from tameD(3) [OF assms(1) b] obtain es where es: "trace s1 = trace ?s0 @ es" "list_all P es"
    by blast
  have "trace s' = trace s @ (PbarOpen t d # es @ [PbarClose]) \<and>
        list_all P (PbarOpen t d # es @ [PbarClose])"
    using es assms(2,3) s' by simp
  then have "\<exists>es. trace s' = trace s @ es \<and> list_all P es" by blast
  moreover have "case r of Inl e \<Rightarrow> X e | Inr x \<Rightarrow> True"
    using tameD(2) [OF assms(1) b] r by (auto split: sum.splits)
  ultimately
  show "length (stdin s') \<le> length (stdin s) \<and> (case r of Inl e \<Rightarrow> X e | Inr x \<Rightarrow> True) \<and>
        (\<exists>es. trace s' = trace s @ es \<and> list_all P es)"
    using tameD(1) [OF assms(1) b] s' by simp
qed

lemma index0_error: "index0 xs = Inl e \<Longrightarrow> e = IndexError"
  by (auto simp: index0_def split: list.splits)

lemma index1_error: "index1 xs = Inl e \<Longrightarrow> e = IndexError"
  by (auto simp: index1_def split: list.splits)

lemma map_raising_error: "map_raising f xs = Inl e \<Longrightarrow> \<exists>x\<in>set xs. f x = Inl e"
  by (induction xs) (auto split: sum.splits)

lemma installed_packages_error: "installed_packages out = Inl e \<Longrightarrow> e = IndexError"
  unfolding installed_packages_def
  by (auto dest!: map_raising_error index0_error simp: map_sum_def split: sum.splits)

lemma marker_label_error: "marker_label l = Inl e \<Longrightarrow> e = IndexError"
  unfolding marker_label_def
  by (auto dest!: index1_error index0_error simp: map_sum_def split: sum.splits)

lemma outdated_names_error: "outdated_names ls = Inl e \<Longrightarrow> e = IndexError"
  unfolding outdated_names_def
  by (auto dest!: map_raising_error index0_error split: if_splits)

lemma tame_installed_packages [tame_intros]:
  "X IndexError \<Longrightarrow> tame X P (lift (installed_packages out))"
  by (rule tame_lift) (auto dest: installed_packages_error)

lemma tame_marker_label [tame_intros]:
  "X IndexError \<Longrightarrow> tame X P (lift (marker_label l))"
  by (rule tame_lift) (auto dest: marker_label_error)

lemma tame_outdated_names [tame_intros]:
  "X IndexError \<Longrightarrow> tame X P (lift (outdated_names ls))"
  by (rule tame_lift) (auto dest: outdated_names_error)

lemma tame_read_local [tame_intros]: "X UnboundLocalError \<Longrightarrow> tame X P (read_local v)"
  by (auto simp: read_local_def intro!: tame_intros split: option.splits)

lemma tame_install_package_loop [tame_intros]:
  "(\<And>d. P (PbarDesc d)) \<Longrightarrow> P (PbarUpdate 1) \<Longrightarrow> tame X P (install_package_loop ls cur)"
  by (induction ls arbitrary: cur) (auto intro!: tame_intros split: option.splits)

lemma tame_requirements_line [tame_intros]:
  "X IndexError \<Longrightarrow> (\<And>d. P (PbarDesc d)) \<Longrightarrow> P (PbarUpdate 1) \<Longrightarrow>
   tame X P (requirements_line l)"
  by (auto simp: requirements_line_def intro!: tame_intros)

lemma tame_marker_line [tame_intros]:
  "X IndexError \<Longrightarrow> (\<And>d. P (PbarDesc d)) \<Longrightarrow> tame X P (marker_line m l x)"
  by (auto simp: marker_line_def intro!: tame_intros)

lemma tame_drain [tame_intros]: "tame X P (drain e)"
  by (auto simp: drain_def intro!: tame_intros)

text \<open>The operations of the menu launch no environment creation.\<close>

lemma tame_is_package_installed [tame_intros]: "tame no_exit no_venv (is_package_installed w v p)"
  by (auto simp: is_package_installed_def Let_def intro!: tame_intros)

lemma tame_install_package [tame_intros]: "tame no_exit no_venv (install_package w v p)"
  by (auto simp: install_package_def Let_def intro!: tame_intros)

lemma tame_install_from_requirements [tame_intros]:
  "tame no_exit no_venv (install_from_requirements w v f)"
  by (auto simp: install_from_requirements_def Let_def intro!: tame_intros)

lemma tame_remove_package [tame_intros]: "tame no_exit no_venv (remove_package w v p)"
  by (auto simp: remove_package_def Let_def intro!: tame_intros)

lemma tame_remove_all_packages [tame_intros]: "tame no_exit no_venv (remove_all_packages w v)"
  by (auto simp: remove_all_packages_def Let_def intro!: tame_intros)

lemma tame_update_packages [tame_intros]: "tame no_exit no_venv (update_packages w v ps)"
  by (auto simp: update_packages_def Let_def intro!: tame_intros)

lemma tame_check_for_updates [tame_intros]: "tame no_exit no_venv (check_for_updates w v)"
  by (auto simp: check_for_updates_def Let_def intro!: tame_intros)

lemma tame_menu_dispatch [tame_intros]: "tame no_exit no_venv (menu_dispatch w v c)"
  by (auto simp: menu_dispatch_def Let_def intro!: tame_intros)

lemma tame_menu_iteration [tame_intros]: "tame no_exit no_venv (menu_iteration w v)"
  by (auto simp: menu_iteration_def Let_def intro!: tame_intros)


section \<open>The loop ends\<close>

lemma menu_iteration_consumes:
  assumes "menu_iteration w v s = (Inr b, s')"
  shows "length (stdin s') < length (stdin s)"
proof -
  let ?prints = "block
            [print ([LF] @ ''Choose an option:''),
             print ''[1] Install a package'',
             print ''[2] Remove a package'',
             print ''[3] Remove all packages'',
             print ''[4] Install from requirements.txt'',
             print ''[5] List installed packages'',
             print ''[6] Generate requirements.txt'',
             print ''[7] Check for updates'',
             print ''[8] Exit'']"
  have tp: "tame (\<lambda>e. True) (\<lambda>e. True) ?prints" by (auto intro!: tame_intros)
  obtain r1 s1 where p: "?prints s = (r1, s1)" by (cases "?prints s")
  obtain r2 s2 where i: "input ''Enter your choice (1-8): '' s1 = (r2, s2)"
    by (cases "input ''Enter your choice (1-8): '' s1")
  from assms p i obtain u l where r1: "r1 = Inr u" and r2: "r2 = Inr l"
    and d: "menu_dispatch w v (strip l) s2 = (Inr b, s')"
    by (auto simp: menu_iteration_def seq_def bnd_def split: sum.splits)
  have "length (stdin s1) \<le> length (stdin s)" using tameD(1) [OF tp p] .
  moreover have "length (stdin s2) < length (stdin s1)"
    using i r2 by (auto simp: input_def seq_def bnd_def emit_def split: list.splits)
  moreover have "length (stdin s') \<le> length (stdin s2)"
    using tameD(1) [OF tame_menu_dispatch d] .
  ultimately show ?thesis by simp
qed

lemma menu_iteration_consumes_sym:
  "(Inr b, s') = menu_iteration w v s \<Longrightarrow> length (stdin s') < length (stdin s)"
  by (rule menu_iteration_consumes [of w v s b s']) simp

termination menu_loop
  by (relation "measure (\<lambda>(w, venv_name, s). length (stdin s))")
     (simp_all add: menu_iteration_consumes_sym)

declare menu_loop.simps [simp del]


section \<open>Facts about the string functions\<close>

lemmas str_defs = strip_def is_space_def is_linebreak_def LF_def CR_def readlines_def splitlines_def
  split_ws_def split_char_def re_split_ops0_def lower_def lower_char_def

lemma hash_not_space: "\<not> is_space (CHR ''#'')"
  by (simp add: is_space_def)

lemma all_dropWhile: "(\<forall>x\<in>set (dropWhile P xs). P x) \<longleftrightarrow> (\<forall>x\<in>set xs. P x)"
proof
  assume a: "\<forall>x\<in>set (dropWhile P xs). P x"
  show "\<forall>x\<in>set xs. P x"
  proof (cases "dropWhile P xs")
    case Nil
    then show ?thesis by (simp add: dropWhile_eq_Nil_conv)
  next
    case (Cons y ys)
    then have "\<not> P (hd (dropWhile P xs))" by (metis hd_dropWhile list.distinct(1))
    with a Cons show ?thesis by simp
  qed
next
  assume "\<forall>x\<in>set xs. P x"
  then show "\<forall>x\<in>set (dropWhile P xs). P x" by (auto dest: set_dropWhileD)
qed

lemma strip_Nil_iff: "strip l = [] \<longleftrightarrow> (\<forall>c\<in>set l. is_space c)"
  by (simp add: strip_def dropWhile_eq_Nil_conv all_dropWhile)

lemma split_ws_from_Nil_iff: "split_ws_from tok cs = [] \<longleftrightarrow> tok = [] \<and> (\<forall>c\<in>set cs. is_space c)"
  by (induction cs arbitrary: tok) auto

lemma split_ws_Nil_iff: "split_ws l = [] \<longleftrightarrow> strip l = []"
  by (simp add: split_ws_def split_ws_from_Nil_iff strip_Nil_iff)

lemma strip_leading:
  assumes "\<forall>c\<in>set ws. is_space c" and "\<not> is_space c"
  shows "strip (ws @ c # rest) = c # rev (dropWhile is_space (rev rest))"
proof -
  have "dropWhile is_space (ws @ c # rest) = c # rest"
    using assms by (simp add: dropWhile_append)
  moreover have "dropWhile is_space (rev rest @ [c]) = dropWhile is_space (rev rest) @ [c]"
    using assms(2) by (simp add: dropWhile_append)
  ultimately show ?thesis by (simp add: strip_def)
qed

lemma re_split_ops0_no_operator: "c \<in> set (re_split_ops0 s) \<Longrightarrow> c \<notin> {CHR ''='', CHR ''<'', CHR ''>''}"
  unfolding re_split_ops0_def by (auto dest: set_takeWhileD)

lemma re_split_ops0_prefix:
  "\<exists>rest. s = re_split_ops0 s @ rest \<and>
      (rest = [] \<or> hd rest \<in> {CHR ''='', CHR ''<'', CHR ''>''})"
proof -
  let ?P = "\<lambda>c. c \<notin> {CHR ''='', CHR ''<'', CHR ''>''}"
  have "s = takeWhile ?P s @ dropWhile ?P s" by simp
  moreover have "dropWhile ?P s = [] \<or> \<not> ?P (hd (dropWhile ?P s))"
    using hd_dropWhile [of ?P s] by blast
  ultimately show ?thesis unfolding re_split_ops0_def by blast
qed


section \<open>Manifest parsing\<close>

text \<open>
  Claim C6.  Manifest parsing gives at most one name for each line of the file.  The line
  \<open>foo>=1.2.3\<close> gives the name \<open>foo\<close>; the line \<open># comment\<close> and an empty line give
  no entry.  Every name is the stripped line up to its first \<open>=\<close>, \<open><\<close> or \<open>>\<close>: what
  follows the name, if anything, begins with one of them, and the name holds none.
\<close>

theorem parse_requirements_lines:
  "parse_requirements ''foo>=1.2.3'' = [''foo''] \<and>
   parse_requirements (''foo>=1.2.3'' @ [LF]) = [''foo''] \<and>
   parse_requirements ''# comment'' = [] \<and>
   parse_requirements (''# comment'' @ [LF]) = [] \<and>
   parse_requirements [] = [] \<and>
   parse_requirements [LF] = [] \<and>
   length (parse_requirements content) \<le> length (readlines content) \<and>
   (\<forall>name\<in>set (parse_requirements content).
      \<exists>line\<in>set (readlines content). \<exists>rest.
        strip line = name @ rest \<and>
        (rest = [] \<or> hd rest \<in> {CHR ''='', CHR ''<'', CHR ''>''}) \<and>
        (\<forall>c\<in>set name. c \<notin> {CHR ''='', CHR ''<'', CHR ''>''}))"
proof -
  have 1: "parse_requirements ''foo>=1.2.3'' = [''foo'']"
    by (simp add: parse_requirements_def str_defs)
  have 2: "parse_requirements (''foo>=1.2.3'' @ [LF]) = [''foo'']"
    by (simp add: parse_requirements_def str_defs)
  have 3: "parse_requirements ''# comment'' = []"
    by (simp add: parse_requirements_def str_defs)
  have 4: "parse_requirements (''# comment'' @ [LF]) = []"
    by (simp add: parse_requirements_def str_defs)
  have 5: "parse_requirements [] = []"
    by (simp add: parse_requirements_def str_defs)
  have 6: "parse_requirements [LF] = []"
    by (simp add: parse_requirements_def str_defs)
  have 7: "length (parse_requirements content) \<le> length (readlines content)"
    by (simp add: parse_requirements_def)
  have 8: "\<forall>name\<in>set (parse_requirements content).
      \<exists>line\<in>set (readlines content). \<exists>rest.
        strip line = name @ rest \<and>
        (rest = [] \<or> hd rest \<in> {CHR ''='', CHR ''<'', CHR ''>''}) \<and>
        (\<forall>c\<in>set name. c \<notin> {CHR ''='', CHR ''<'', CHR ''>''})"
  proof
    fix name assume "name \<in> set (parse_requirements content)"
    then obtain line where l: "line \<in> set (readlines content)" and n: "name = re_split_ops0 (strip line)"
      by (auto simp: parse_requirements_def)
    from re_split_ops0_prefix [of "strip line"] obtain rest where
      "strip line = name @ rest" "rest = [] \<or> hd rest \<in> {CHR ''='', CHR ''<'', CHR ''>''}"
      unfolding n by blast
    moreover have "\<forall>c\<in>set name. c \<notin> {CHR ''='', CHR ''<'', CHR ''>''}"
      unfolding n using re_split_ops0_no_operator by blast
    ultimately show "\<exists>line\<in>set (readlines content). \<exists>rest.
        strip line = name @ rest \<and>
        (rest = [] \<or> hd rest \<in> {CHR ''='', CHR ''<'', CHR ''>''}) \<and>
        (\<forall>c\<in>set name. c \<notin> {CHR ''='', CHR ''<'', CHR ''>''})"
      using l by blast
  qed
  from 1 2 3 4 5 6 7 8 show ?thesis by blast
qed

theorem parse_requirements_lines_witness:
  "parse_requirements (''foo>=1.2.3'' @ [LF] @ ''# comment'' @ [LF] @ [LF] @ ''bar'') =
     [''foo'', ''bar''] \<and>
   (\<exists>line\<in>set [''foo>=1.2.3'' @ [LF], ''# comment'' @ [LF], [LF], ''bar'']. \<exists>rest.
      strip line = ''foo'' @ rest \<and>
      (rest = [] \<or> hd rest \<in> {CHR ''='', CHR ''<'', CHR ''>''}))"
proof -
  let ?c = "''foo>=1.2.3'' @ [LF] @ ''# comment'' @ [LF] @ [LF] @ ''bar''"
  have p: "parse_requirements ?c = [''foo'', ''bar'']"
    by (simp add: parse_requirements_def str_defs)
  have r: "readlines ?c = [''foo>=1.2.3'' @ [LF], ''# comment'' @ [LF], [LF], ''bar'']"
    by (simp add: str_defs)
  from parse_requirements_lines [of ?c] show ?thesis
    unfolding p r by auto
qed

text \<open>
  Claim C10.  A line of the manifest that begins with whitespace and goes on with the
  comment marker \<open>#\<close> is not skipped: the test for the marker looks at the line as
  read, before it is stripped, so the line gives an entry, and the entry begins with
  \<open>#\<close>.
\<close>

theorem indented_comment_is_parsed:
  assumes "line \<in> set (readlines content)"
      and "line = ws @ CHR ''#'' # rest"
      and "ws \<noteq> []" and "\<forall>c\<in>set ws. is_space c"
  shows "\<exists>name\<in>set (parse_requirements content).
           name = re_split_ops0 (strip line) \<and> startswith name ''#''"
proof -
  have s: "strip line = CHR ''#'' # rev (dropWhile is_space (rev rest))"
    unfolding assms(2) using assms(4) hash_not_space by (rule strip_leading)
  have "\<not> startswith line ''#''"
  proof -
    obtain c cs where ws: "ws = c # cs" using assms(3) by (cases ws) auto
    with assms(4) have "is_space c" by simp
    with hash_not_space have "c \<noteq> CHR ''#''" by auto
    with ws assms(2) show ?thesis by simp
  qed
  moreover have "strip line \<noteq> []" using s by simp
  ultimately have "line \<in> set (filter (\<lambda>line. strip line \<noteq> [] \<and> \<not> startswith line ''#'')
                      (readlines content))"
    using assms(1) by simp
  then have "re_split_ops0 (strip line) \<in> set (parse_requirements content)"
    unfolding parse_requirements_def by (simp only: set_map image_eqI)
  moreover have "startswith (re_split_ops0 (strip line)) ''#''"
    unfolding s by (simp add: re_split_ops0_def)
  ultimately show ?thesis by blast
qed

theorem indented_comment_is_parsed_witness:
  "parse_requirements (''  # comment'' @ [LF]) = [''# comment''] \<and>
   (\<exists>name\<in>set (parse_requirements (''  # comment'' @ [LF])).
      name = re_split_ops0 (strip (''  # comment'' @ [LF])) \<and> startswith name ''#'')"
proof -
  have r: "''  # comment'' @ [LF] \<in> set (readlines (''  # comment'' @ [LF]))"
    by (simp add: str_defs)
  have p: "parse_requirements (''  # comment'' @ [LF]) = [''# comment'']"
    by (simp add: parse_requirements_def str_defs)
  have w: "''  '' \<noteq> [] \<and> (\<forall>c\<in>set ''  ''. is_space c)" by (simp add: is_space_def)
  from indented_comment_is_parsed [OF r, of "''  ''" "'' comment'' @ [LF]"] w p
  show ?thesis by simp
qed



section \<open>Running the operations\<close>

lemmas run_defs = bnd_def seq_def ret_def raise_def lift_def emit_def print_def log_def
  input_def Popen_def subprocess_run_def os_path_exists_def open_read_def open_write_def
  file_write_def os_remove_def with_tqdm_def try_except_def requests_get_def read_local_def
  events_of_def os_exception_def

lemma map_raising_index0_split_ws:
  "map_raising (\<lambda>line. index0 (split_ws line)) ls =
     (if \<exists>l\<in>set ls. strip l = [] then Inl IndexError
      else Inr (concat (map (\<lambda>line. take 1 (split_ws line)) ls)))"
proof (induction ls)
  case Nil
  then show ?case by simp
next
  case (Cons l ls)
  show ?case
  proof (cases "split_ws l")
    case Nil
    then show ?thesis by (simp add: index0_def split_ws_Nil_iff [symmetric])
  next
    case (Cons t ts)
    then have "strip l \<noteq> []" by (simp add: split_ws_Nil_iff [symmetric])
    with Cons Cons.IH show ?thesis by (simp add: index0_def)
  qed
qed

lemma installed_packages_total:
  "installed_packages out = Inr (map lower (listed_names out))"
proof -
  let ?ls = "drop 2 (splitlines out)"
  have "map_raising (\<lambda>line. map_sum id lower (index0 (split_ws line))) ls =
        (if \<exists>l\<in>set ls. strip l = [] then Inl IndexError
         else Inr (map lower (concat (map (\<lambda>line. take 1 (split_ws line)) ls))))" for ls
  proof (induction ls)
    case Nil
    then show ?case by simp
  next
    case (Cons l ls)
    show ?case
    proof (cases "split_ws l")
      case Nil
      then show ?thesis by (simp add: index0_def split_ws_Nil_iff [symmetric])
    next
      case (Cons t ts)
      then have "strip l \<noteq> []" by (simp add: split_ws_Nil_iff [symmetric])
      with Cons Cons.IH show ?thesis by (simp add: index0_def)
    qed
  qed
  then have "installed_packages out =
     Inr (map lower (concat (map (\<lambda>line. take 1 (split_ws line)) (filter (\<lambda>line. strip line \<noteq> []) ?ls))))"
    by (simp add: installed_packages_def)
  moreover have "concat (map (\<lambda>line. take 1 (split_ws line)) (filter (\<lambda>line. strip line \<noteq> []) ls)) =
                 concat (map (\<lambda>line. take 1 (split_ws line)) ls)" for ls
    by (induction ls) (simp_all add: split_ws_Nil_iff [symmetric])
  ultimately show ?thesis by (simp add: listed_names_def)
qed

lemma outdated_names_blank:
  assumes "2 < length ls" and "\<exists>l\<in>set (drop 2 ls). strip l = []"
  shows "outdated_names ls = Inl IndexError"
  using assms by (simp add: outdated_names_def map_raising_index0_split_ws)

lemma outdated_names_header_only: "length ls \<le> 2 \<Longrightarrow> outdated_names ls = Inr []"
  by (simp add: outdated_names_def)


section \<open>The outdated check and the installed list\<close>

text \<open>
  Claim C7.  When the output of the outdated listing has the two header lines and nothing
  after them, \<open>check_for_updates\<close> reports that all packages are up to date and
  returns: the listing is the only command it launches, it asks nothing, and it reads
  nothing from standard input.
\<close>

theorem header_only_is_up_to_date:
  assumes "subprocess w (spawned s)
             [get_python_executable w venv_name, ''-m'', ''pip'', ''list'', ''--outdated''] = Inr r"
      and "length (splitlines (stdout r)) \<le> 2"
  shows "fst (check_for_updates w venv_name s) = Inr () \<and>
         events_of (check_for_updates w venv_name) s =
           [Print ''[INFO] Checking for outdated packages...'',
            Spawn [get_python_executable w venv_name, ''-m'', ''pip'', ''list'', ''--outdated''],
            Print ''[INFO] All packages are up to date.''] \<and>
         stdin (snd (check_for_updates w venv_name s)) = stdin s"
  using assms
  by (simp add: check_for_updates_def Let_def run_defs outdated_names_header_only)

text \<open>
  Claim C9.  When the output of the outdated listing has more than two lines and a line
  after the header is empty or all whitespace, \<open>check_for_updates\<close> ends with
  \<open>IndexError\<close>: \<open>line.split()[0]\<close> of such a line.  The parser of the plain list
  filters these lines before it indexes: on every output it gives the lower-cased first
  tokens of the lines that have one, and \<open>is_package_installed\<close> answers whenever the
  listing command could be launched.
\<close>

theorem blank_line_after_header:
  "(subprocess w (spawned s)
      [get_python_executable w venv_name, ''-m'', ''pip'', ''list'', ''--outdated''] = Inr r \<and>
    2 < length (splitlines (stdout r)) \<and>
    (\<exists>line\<in>set (drop 2 (splitlines (stdout r))). strip line = [])
    \<longrightarrow> fst (check_for_updates w venv_name s) = Inl IndexError) \<and>
   installed_packages out = Inr (map lower (listed_names out)) \<and>
   (subprocess w (spawned s) [get_python_executable w venv_name, ''-m'', ''pip'', ''list''] = Inr r'
    \<longrightarrow> fst (is_package_installed w venv_name package_name s) =
          Inr (lower package_name \<in> set (map lower (listed_names (stdout r')))))"
proof (intro conjI impI)
  assume a: "subprocess w (spawned s)
      [get_python_executable w venv_name, ''-m'', ''pip'', ''list'', ''--outdated''] = Inr r \<and>
    2 < length (splitlines (stdout r)) \<and>
    (\<exists>line\<in>set (drop 2 (splitlines (stdout r))). strip line = [])"
  then have "outdated_names (splitlines (stdout r)) = Inl IndexError"
    by (simp add: outdated_names_blank)
  with a show "fst (check_for_updates w venv_name s) = Inl IndexError"
    by (simp add: check_for_updates_def Let_def run_defs)
next
  show "installed_packages out = Inr (map lower (listed_names out))"
    by (rule installed_packages_total)
next
  assume "subprocess w (spawned s) [get_python_executable w venv_name, ''-m'', ''pip'', ''list''] = Inr r'"
  then show "fst (is_package_installed w venv_name package_name s) =
          Inr (lower package_name \<in> set (map lower (listed_names (stdout r'))))"
    by (simp add: is_package_installed_def Let_def run_defs installed_packages_total)
qed


lemmas world_defs = posix_world_def exited_def start_def venv_python_def
  get_python_executable_def unlines_def

theorem header_only_is_up_to_date_witness:
  "subprocess up_to_date_world (spawned (start [(''venv'', Dir)] []))
     [get_python_executable up_to_date_world ''venv'', ''-m'', ''pip'', ''list'', ''--outdated''] =
     Inr (exited 0 outdated_header []) \<and>
   length (splitlines (stdout (exited 0 outdated_header []))) = 2 \<and>
   fst (check_for_updates up_to_date_world ''venv'' (start [(''venv'', Dir)] [])) = Inr () \<and>
   events_of (check_for_updates up_to_date_world ''venv'') (start [(''venv'', Dir)] []) =
     [Print ''[INFO] Checking for outdated packages...'',
      Spawn [''venv/bin/python'', ''-m'', ''pip'', ''list'', ''--outdated''],
      Print ''[INFO] All packages are up to date.'']"
proof -
  let ?s = "start [(''venv'', Dir)] []"
  have py: "get_python_executable up_to_date_world ''venv'' = ''venv/bin/python''"
    by (simp add: up_to_date_world_def world_defs)
  have h1: "subprocess up_to_date_world (spawned ?s)
     [get_python_executable up_to_date_world ''venv'', ''-m'', ''pip'', ''list'', ''--outdated''] =
     Inr (exited 0 outdated_header [])"
    unfolding py by (simp add: up_to_date_world_def posix_world_def venv_python_def)
  have h2: "length (splitlines (stdout (exited 0 outdated_header []))) = 2"
    by (simp add: exited_def outdated_header_def unlines_def str_defs)
  from header_only_is_up_to_date [OF h1] h2 h1 show ?thesis
    unfolding py by simp
qed

theorem blank_line_after_header_witness:
  "subprocess blank_line_world (spawned (start [(''venv'', Dir)] []))
     [get_python_executable blank_line_world ''venv'', ''-m'', ''pip'', ''list'', ''--outdated''] =
     Inr (exited 0 outdated_with_blank []) \<and>
   length (splitlines outdated_with_blank) = 4 \<and>
   strip (splitlines outdated_with_blank ! 2) = [] \<and>
   fst (check_for_updates blank_line_world ''venv'' (start [(''venv'', Dir)] [])) = Inl IndexError \<and>
   installed_packages outdated_with_blank = Inr [''numpy''] \<and>
   fst (is_package_installed blank_line_world ''venv'' ''NumPy'' (start [(''venv'', Dir)] [])) = Inr True"
proof -
  let ?s = "start [(''venv'', Dir)] []"
  let ?r = "exited 0 outdated_with_blank []"
  have py: "get_python_executable blank_line_world ''venv'' = ''venv/bin/python''"
    by (simp add: blank_line_world_def world_defs)
  have h1: "subprocess blank_line_world (spawned ?s)
     [get_python_executable blank_line_world ''venv'', ''-m'', ''pip'', ''list'', ''--outdated''] = Inr ?r"
    unfolding py by (simp add: blank_line_world_def posix_world_def venv_python_def)
  have h1': "subprocess blank_line_world (spawned ?s)
     [get_python_executable blank_line_world ''venv'', ''-m'', ''pip'', ''list''] = Inr ?r"
    unfolding py by (simp add: blank_line_world_def posix_world_def venv_python_def)
  have ls: "splitlines outdated_with_blank =
     [''Package Version Latest Type'', ''------- ------- ------ -----'', [],
      ''numpy   1.26.0  2.0.0  wheel'']"
    by (simp add: outdated_with_blank_def unlines_def str_defs)
  have st: "stdout ?r = outdated_with_blank" by (simp add: exited_def)
  have h2: "2 < length (splitlines (stdout ?r))" unfolding st ls by simp
  have h3: "\<exists>line\<in>set (drop 2 (splitlines (stdout ?r))). strip line = []"
    unfolding st ls by (simp add: strip_def)
  have names: "listed_names outdated_with_blank = [''numpy'']"
    unfolding listed_names_def ls by (simp add: str_defs)
  have low: "lower ''NumPy'' = ''numpy''" by (simp add: str_defs)
  from blank_line_after_header [of blank_line_world ?s "''venv''" ?r outdated_with_blank ?r "''NumPy''"]
    h1 h1' h2 h3
  show ?thesis unfolding st names ls low by (simp add: str_defs)
qed


section \<open>Installing one package\<close>

lemma install_package_loop_no_match:
  "\<forall>line\<in>set ls. re_search_Collecting (strip line) = None \<Longrightarrow>
   install_package_loop ls cur = ret cur"
  by (induction ls) simp_all

text \<open>
  Claim C5.  When the lower-cased names of the installed list include the lower-cased
  name asked for, \<open>install_package\<close> logs that the package is skipped and returns;
  the only command it launches is the listing.  Both sides of the membership test are
  lower-cased: asking for \<open>NumPy\<close> when \<open>numpy\<close> and \<open>requests\<close> are installed is
  skipped.
\<close>

theorem installed_package_is_skipped:
  assumes "subprocess w (spawned s) [get_python_executable w venv_name, ''-m'', ''pip'', ''list''] = Inr r"
      and "lower package_name \<in> lower ` set (listed_names (stdout r))"
  shows "fst (install_package w venv_name package_name s) = Inr () \<and>
         events_of (install_package w venv_name package_name) s =
           [Spawn [get_python_executable w venv_name, ''-m'', ''pip'', ''list''],
            Print (''[INFO] ERROR: '' @ package_name @ '' (skipped, already installed)'')]"
  using assms
  by (simp add: install_package_def is_package_installed_def Let_def run_defs
      installed_packages_total)

theorem installed_package_is_skipped_witness:
  "subprocess up_to_date_world (spawned (start [(''venv'', Dir)] []))
     [get_python_executable up_to_date_world ''venv'', ''-m'', ''pip'', ''list''] =
     Inr (exited 0 listing []) \<and>
   listed_names listing = [''numpy'', ''requests''] \<and>
   lower ''NumPy'' = ''numpy'' \<and>
   fst (install_package up_to_date_world ''venv'' ''NumPy'' (start [(''venv'', Dir)] [])) = Inr () \<and>
   events_of (install_package up_to_date_world ''venv'' ''NumPy'') (start [(''venv'', Dir)] []) =
     [Spawn [''venv/bin/python'', ''-m'', ''pip'', ''list''],
      Print ''[INFO] ERROR: NumPy (skipped, already installed)'']"
proof -
  let ?s = "start [(''venv'', Dir)] []"
  let ?r = "exited 0 listing []"
  have py: "get_python_executable up_to_date_world ''venv'' = ''venv/bin/python''"
    by (simp add: up_to_date_world_def world_defs)
  have h1: "subprocess up_to_date_world (spawned ?s)
     [get_python_executable up_to_date_world ''venv'', ''-m'', ''pip'', ''list''] = Inr ?r"
    unfolding py by (simp add: up_to_date_world_def posix_world_def venv_python_def)
  have st: "stdout ?r = listing" by (simp add: exited_def)
  have names: "listed_names listing = [''numpy'', ''requests'']"
    by (simp add: listed_names_def listing_def unlines_def str_defs)
  have low: "lower ''NumPy'' = ''numpy''" by (simp add: str_defs)
  have h2: "lower ''NumPy'' \<in> lower ` set (listed_names (stdout ?r))"
    unfolding st names low by (simp add: str_defs)
  from installed_package_is_skipped [OF h1 h2] h1 names low show ?thesis
    unfolding py by simp
qed

text \<open>
  Claim C2.  When the package is not installed and no line of the output of
  \<open>pip install\<close> matches \<open>Collecting (\S+)\<close>, the variable \<open>current_package\<close> is
  never bound: after the process has ended and the progress bar is closed, the update of
  its description raises \<open>UnboundLocalError\<close>, whatever the exit status.
\<close>

theorem no_Collecting_line_faults:
  assumes "subprocess w (spawned s) [get_python_executable w venv_name, ''-m'', ''pip'', ''list''] = Inr r0"
      and "lower package_name \<notin> lower ` set (listed_names (stdout r0))"
      and "subprocess w (Suc (spawned s))
             [get_python_executable w venv_name, ''-m'', ''pip'', ''install'', package_name] = Inr r"
      and "\<forall>line\<in>set (readlines (stdout r)). re_search_Collecting (strip line) = None"
  shows "fst (install_package w venv_name package_name s) = Inl UnboundLocalError \<and>
         events_of (install_package w venv_name package_name) s =
           [Spawn [get_python_executable w venv_name, ''-m'', ''pip'', ''list''],
            Print (''[INFO] Installing: '' @ package_name @ ''...''),
            Spawn [get_python_executable w venv_name, ''-m'', ''pip'', ''install'', package_name],
            PbarOpen None (''Installing '' @ package_name),
            PbarClose]"
  using assms
  by (simp add: install_package_def is_package_installed_def Let_def run_defs
      installed_packages_total install_package_loop_no_match)

theorem no_Collecting_line_faults_witness:
  "subprocess satisfied_world (Suc (spawned (start [(''venv'', Dir)] [])))
     [get_python_executable satisfied_world ''venv'', ''-m'', ''pip'', ''install'', ''six''] =
     Inr (exited 0 (unlines [''Requirement already satisfied: six in /usr/lib/python3/dist-packages'']) []) \<and>
   map (\<lambda>line. re_search_Collecting (strip line))
     (readlines (unlines [''Requirement already satisfied: six in /usr/lib/python3/dist-packages''])) =
     [None] \<and>
   fst (install_package satisfied_world ''venv'' ''six'' (start [(''venv'', Dir)] [])) =
     Inl UnboundLocalError \<and>
   events_of (install_package satisfied_world ''venv'' ''six'') (start [(''venv'', Dir)] []) =
     [Spawn [''venv/bin/python'', ''-m'', ''pip'', ''list''],
      Print ''[INFO] Installing: six...'',
      Spawn [''venv/bin/python'', ''-m'', ''pip'', ''install'', ''six''],
      PbarOpen None ''Installing six'',
      PbarClose]"
proof -
  let ?s = "start [(''venv'', Dir)] []"
  let ?out = "unlines [''Requirement already satisfied: six in /usr/lib/python3/dist-packages'']"
  let ?listed = "exited 0 listing []"
  let ?r = "exited 0 ?out []"
  have py: "get_python_executable satisfied_world ''venv'' = ''venv/bin/python''"
    by (simp add: satisfied_world_def world_defs)
  have h1: "subprocess satisfied_world (spawned ?s)
     [get_python_executable satisfied_world ''venv'', ''-m'', ''pip'', ''list''] = Inr ?listed"
    unfolding py by (simp add: satisfied_world_def posix_world_def venv_python_def)
  have h3: "subprocess satisfied_world (Suc (spawned ?s))
     [get_python_executable satisfied_world ''venv'', ''-m'', ''pip'', ''install'', ''six''] = Inr ?r"
    unfolding py by (simp add: satisfied_world_def posix_world_def venv_python_def)
  have names: "listed_names (stdout ?listed) = [''numpy'', ''requests'']"
    by (simp add: exited_def listed_names_def listing_def unlines_def str_defs)
  have h2: "lower ''six'' \<notin> lower ` set (listed_names (stdout ?listed))"
    unfolding names by (simp add: str_defs)
  have rl: "readlines ?out = [''Requirement already satisfied: six in /usr/lib/python3/dist-packages'' @ [LF]]"
    by (simp add: unlines_def str_defs)
  have m: "map (\<lambda>line. re_search_Collecting (strip line)) (readlines ?out) = [None]"
    unfolding rl by (simp add: str_defs)
  have st: "stdout ?r = ?out" by (simp add: exited_def)
  have h4: "\<forall>line\<in>set (readlines (stdout ?r)). re_search_Collecting (strip line) = None"
    using m unfolding st by (simp add: rl)
  from no_Collecting_line_faults [OF h1 h2 h3 h4] h3 m show ?thesis
    unfolding py by simp
qed



section \<open>Removing and updating packages\<close>

lemma drain_ret: "drain err = ret ()"
proof -
  have "for_each (\<lambda>stderr_line. ret ()) ls = ret ()" for ls :: "string list"
    by (induction ls) (simp_all add: seq_def bnd_def ret_def fun_eq_iff)
  then show ?thesis by (simp add: drain_def)
qed

lemma get_python_executable_with_exits:
  "get_python_executable (with_exits w rc err) v = get_python_executable w v"
  by (simp add: get_python_executable_def with_exits_def)

lemma bnd_Popen_with_exits:
  assumes "\<And>r c e. k (r\<lparr>returncode := c, stderr := e\<rparr>) = k r"
  shows "bnd (Popen (with_exits w rc err) argv) k = bnd (Popen w argv) k"
proof
  fix s
  show "bnd (Popen (with_exits w rc err) argv) k s = bnd (Popen w argv) k s"
  proof (cases "subprocess w (spawned s) argv")
    case (Inl e)
    then show ?thesis by (simp add: bnd_def Popen_def with_exits_def Let_def)
  next
    case (Inr r)
    then show ?thesis
      using assms by (simp add: bnd_def Popen_def with_exits_def Let_def)
  qed
qed

lemma bnd_ret: "bnd m ret = m"
  by (auto simp: bnd_def ret_def fun_eq_iff split: prod.splits sum.splits)

lemma subprocess_run_unchecked: "subprocess_run w False argv = Popen w argv"
  by (simp add: subprocess_run_def bnd_ret)

lemma remove_package_with_exits:
  "remove_package (with_exits w rc err) venv_name package_name =
   remove_package w venv_name package_name"
  unfolding remove_package_def Let_def get_python_executable_with_exits
  by (simp add: bnd_Popen_with_exits drain_ret)

lemma remove_all_packages_with_exits:
  "remove_all_packages (with_exits w rc err) venv_name = remove_all_packages w venv_name"
  unfolding remove_all_packages_def Let_def get_python_executable_with_exits
    subprocess_run_unchecked
  by (simp add: bnd_Popen_with_exits drain_ret cong: if_cong)

lemma update_packages_with_exits:
  "update_packages (with_exits w rc err) venv_name packages =
   update_packages w venv_name packages"
  unfolding update_packages_def Let_def get_python_executable_with_exits
  by (simp add: bnd_Popen_with_exits drain_ret)


lemma spawns_append: "spawns (es @ es') = spawns es @ spawns es'"
  by (induction es rule: spawns.induct) simp_all

lemma progress_append: "progress (es @ es') = progress es + progress es'"
  by (induction es rule: progress.induct) simp_all

lemma silent_events:
  "list_all (\<lambda>e. \<exists>d. e = PbarDesc d) es \<Longrightarrow> spawns es = [] \<and> progress es = 0"
  by (induction es) auto

lemma bnd_Inr_elim:
  assumes "bnd m f s = (Inr y, s')"
  obtains x s1 where "m s = (Inr x, s1)" and "f x s1 = (Inr y, s')"
  using assms by (auto simp: bnd_def split: prod.splits sum.splits)

lemma seq_Inr_elim:
  assumes "seq m k s = (Inr y, s')"
  obtains x s1 where "m s = (Inr x, s1)" and "k s1 = (Inr y, s')"
  using assms unfolding seq_def by (rule bnd_Inr_elim)

lemma with_tqdm_Inr_elim:
  assumes "with_tqdm t d body s = (Inr y, s')"
  obtains s1 where "body (s\<lparr>trace := trace s @ [PbarOpen t d]\<rparr>) = (Inr y, s1)"
    and "s' = s1\<lparr>trace := trace s1 @ [PbarClose]\<rparr>"
  using assms by (auto simp: with_tqdm_def emit_def split: prod.splits)

lemma Popen_Inr_trace:
  "Popen w argv s = (Inr r, s1) \<Longrightarrow> trace s1 = trace s @ [Spawn argv]"
  by (auto simp: Popen_def Let_def split: sum.splits)

lemma log_run: "log l s = (r, s') \<Longrightarrow> r = Inr () \<and> trace s' = trace s @ [Print (''[INFO] '' @ l)]"
  by (auto simp: log_def print_def emit_def)

lemma package_step:
  assumes "bnd (Popen w argv) (\<lambda>process.
             block
               [for_each (marker_line m l) (readlines (stdout process)),
                drain (stderr process),
                emit (PbarUpdate 1)]) s = (Inr (), s')"
  shows "\<exists>es. trace s' = trace s @ es \<and> spawns es = [argv] \<and> progress es = 1"
proof -
  from assms obtain r s1 where p: "Popen w argv s = (Inr r, s1)"
    and b: "block
               [for_each (marker_line m l) (readlines (stdout r)),
                drain (stderr r),
                emit (PbarUpdate 1)] s1 = (Inr (), s')"
    by (rule bnd_Inr_elim)
  from b obtain u s2 where f: "for_each (marker_line m l) (readlines (stdout r)) s1 = (Inr u, s2)"
    and e: "seq (drain (stderr r)) (seq (emit (PbarUpdate 1)) (ret ())) s2 = (Inr (), s')"
    by (auto elim: seq_Inr_elim)
  have "tame (\<lambda>e. True) (\<lambda>e. \<exists>d. e = PbarDesc d) (for_each (marker_line m l) (readlines (stdout r)))"
    by (auto intro!: tame_intros)
  from tameD(3) [OF this f] obtain es where es: "trace s2 = trace s1 @ es"
    "list_all (\<lambda>e. \<exists>d. e = PbarDesc d) es" by blast
  from e have "trace s' = trace s2 @ [PbarUpdate 1]"
    by (auto simp: drain_ret seq_def bnd_def ret_def emit_def)
  with es(1) Popen_Inr_trace [OF p]
  have "trace s' = trace s @ (Spawn argv # es @ [PbarUpdate 1])" by simp
  moreover have "spawns (Spawn argv # es @ [PbarUpdate 1]) = [argv]"
    using silent_events [OF es(2)] by (simp add: spawns_append)
  moreover have "progress (Spawn argv # es @ [PbarUpdate 1]) = 1"
    using silent_events [OF es(2)] by (simp add: progress_append)
  ultimately show ?thesis by blast
qed

lemma for_each_progress:
  assumes "\<And>p s s'. f p s = (Inr (), s') \<Longrightarrow>
             \<exists>es. trace s' = trace s @ es \<and> spawns es = [argv p] \<and> progress es = 1"
  shows "for_each f ps s = (Inr (), s') \<Longrightarrow>
         \<exists>es. trace s' = trace s @ es \<and> spawns es = map argv ps \<and> progress es = length ps"
proof (induction ps arbitrary: s)
  case Nil
  then show ?case by (simp add: ret_def)
next
  case (Cons p ps)
  from Cons.prems obtain u s1 where 1: "f p s = (Inr u, s1)" and 2: "for_each f ps s1 = (Inr (), s')"
    by (auto elim: seq_Inr_elim)
  from assms [of p s s1] 1 obtain es1 where e1: "trace s1 = trace s @ es1" "spawns es1 = [argv p]"
    "progress es1 = 1" by auto
  from Cons.IH [OF 2] obtain es2 where e2: "trace s' = trace s1 @ es2" "spawns es2 = map argv ps"
    "progress es2 = length ps" by blast
  have "trace s' = trace s @ (es1 @ es2) \<and> spawns (es1 @ es2) = map argv (p # ps) \<and>
        progress (es1 @ es2) = length (p # ps)"
    using e1 e2 by (simp add: spawns_append progress_append)
  then show ?case by blast
qed

lemma events_of_eq: "m s = (r, s') \<Longrightarrow> trace s' = trace s @ es \<Longrightarrow> events_of m s = es"
  by (simp add: events_of_def)

lemma remove_package_completes:
  assumes "fst (remove_package w venv_name package_name s) = Inr ()"
  shows "\<exists>es. events_of (remove_package w venv_name package_name) s =
           es @ [PbarUpdate 1, PbarClose,
                 Print (''[INFO] Package '' @ quote @ package_name @ quote @ '' removed successfully.'')]"
proof -
  let ?py = "get_python_executable w venv_name"
  let ?argv = "[?py, ''-m'', ''pip'', ''uninstall'', ''-y'', package_name]"
  obtain s' where run: "remove_package w venv_name package_name s = (Inr (), s')"
    using assms by (cases "remove_package w venv_name package_name s") auto
  from run obtain u s1 where 1: "log (''Removing package: '' @ package_name @ ''...'') s = (Inr u, s1)"
    and 2: "bnd (Popen w ?argv) (\<lambda>process.
         seq (with_tqdm (Some 1) (''Removing '' @ package_name)
                (block
                   [for_each (marker_line ''Uninstalling'' ''Removing: '') (readlines (stdout process)),
                    drain (stderr process),
                    emit (PbarUpdate 1)]))
           (log (''Package '' @ quote @ package_name @ quote @ '' removed successfully.''))) s1 = (Inr (), s')"
    unfolding remove_package_def Let_def by (rule seq_Inr_elim)
  from 2 obtain r s2 where 3: "Popen w ?argv s1 = (Inr r, s2)"
    and 4: "seq (with_tqdm (Some 1) (''Removing '' @ package_name)
                (block
                   [for_each (marker_line ''Uninstalling'' ''Removing: '') (readlines (stdout r)),
                    drain (stderr r),
                    emit (PbarUpdate 1)]))
           (log (''Package '' @ quote @ package_name @ quote @ '' removed successfully.'')) s2 = (Inr (), s')"
    by (rule bnd_Inr_elim)
  from 4 obtain v s3 where 5: "with_tqdm (Some 1) (''Removing '' @ package_name)
                (block
                   [for_each (marker_line ''Uninstalling'' ''Removing: '') (readlines (stdout r)),
                    drain (stderr r),
                    emit (PbarUpdate 1)]) s2 = (Inr v, s3)"
    and 6: "log (''Package '' @ quote @ package_name @ quote @ '' removed successfully.'') s3 = (Inr (), s')"
    by (rule seq_Inr_elim)
  let ?s2 = "s2\<lparr>trace := trace s2 @ [PbarOpen (Some 1) (''Removing '' @ package_name)]\<rparr>"
  from 5 obtain s4 where 7: "block
                   [for_each (marker_line ''Uninstalling'' ''Removing: '') (readlines (stdout r)),
                    drain (stderr r),
                    emit (PbarUpdate 1)] ?s2 = (Inr v, s4)"
    and 8: "s3 = s4\<lparr>trace := trace s4 @ [PbarClose]\<rparr>"
    by (rule with_tqdm_Inr_elim)
  from 7 obtain u' s5 where 9: "for_each (marker_line ''Uninstalling'' ''Removing: '') (readlines (stdout r)) ?s2 = (Inr u', s5)"
    and 10: "seq (drain (stderr r)) (seq (emit (PbarUpdate 1)) (ret ())) s5 = (Inr v, s4)"
    by (auto elim: seq_Inr_elim)
  have "tame (\<lambda>e. True) (\<lambda>e. True) (for_each (marker_line ''Uninstalling'' ''Removing: '') (readlines (stdout r)))"
    by (auto intro!: tame_intros)
  from tameD(3) [OF this 9] obtain es where es: "trace s5 = trace ?s2 @ es" by blast
  from 10 have t4: "trace s4 = trace s5 @ [PbarUpdate 1]"
    by (auto simp: drain_ret seq_def bnd_def ret_def emit_def)
  from log_run [OF 1] have t1: "trace s1 = trace s @ [Print (''[INFO] Removing package: '' @ package_name @ ''...'')]"
    by simp
  from log_run [OF 6] have t': "trace s' = trace s3 @ [Print (''[INFO] Package '' @ quote @ package_name @ quote @ '' removed successfully.'')]"
    by simp
  have "trace s' = trace s @
          ([Print (''[INFO] Removing package: '' @ package_name @ ''...''), Spawn ?argv,
            PbarOpen (Some 1) (''Removing '' @ package_name)] @ es) @
          [PbarUpdate 1, PbarClose,
           Print (''[INFO] Package '' @ quote @ package_name @ quote @ '' removed successfully.'')]"
    using t' 8 t4 es t1 Popen_Inr_trace [OF 3] by simp
  from events_of_eq [where m = "remove_package w venv_name package_name" and s = s, OF run this]
  show ?thesis by blast
qed


lemma Popen_Inr_result:
  "Popen w argv s = (Inr r, s1) \<Longrightarrow> subprocess w (spawned s) argv = Inr r"
  by (auto simp: Popen_def Let_def split: sum.splits)


lemma update_packages_completes:
  assumes "fst (update_packages w venv_name packages s) = Inr ()"
  shows "spawns (events_of (update_packages w venv_name packages) s) =
           map (\<lambda>package. [get_python_executable w venv_name, ''-m'', ''pip'', ''install'',
                            ''--upgrade'', package]) packages \<and>
         progress (events_of (update_packages w venv_name packages) s) = length packages \<and>
         (\<exists>es. events_of (update_packages w venv_name packages) s =
                 es @ [PbarClose, Print ''[INFO] All selected packages updated successfully.''])"
proof -
  let ?py = "get_python_executable w venv_name"
  let ?argv = "\<lambda>package. [?py, ''-m'', ''pip'', ''install'', ''--upgrade'', package]"
  let ?step = "\<lambda>package.
                   bnd (Popen w (?argv package)) (\<lambda>process.
                   block
                     [for_each (marker_line ''Collecting'' ''Updating: '') (readlines (stdout process)),
                      drain (stderr process),
                      emit (PbarUpdate 1)])"
  let ?open = "PbarOpen (Some (length packages)) ''Updating packages''"
  let ?done = "Print ''[INFO] All selected packages updated successfully.''"
  obtain s' where run: "update_packages w venv_name packages s = (Inr (), s')"
    using assms by (cases "update_packages w venv_name packages s") auto
  from run obtain v s3 where 1: "with_tqdm (Some (length packages)) ''Updating packages''
                (for_each ?step packages) s = (Inr v, s3)"
    and 2: "log ''All selected packages updated successfully.'' s3 = (Inr (), s')"
    unfolding update_packages_def Let_def by (rule seq_Inr_elim)
  let ?s0 = "s\<lparr>trace := trace s @ [?open]\<rparr>"
  from 1 obtain s4 where 3: "for_each ?step packages ?s0 = (Inr v, s4)"
    and 4: "s3 = s4\<lparr>trace := trace s4 @ [PbarClose]\<rparr>"
    by (rule with_tqdm_Inr_elim)
  from 3 have loop: "for_each ?step packages ?s0 = (Inr (), s4)" by simp
  have "\<exists>es. trace s4 = trace ?s0 @ es \<and> spawns es = map ?argv packages \<and>
             progress es = length packages"
  proof (rule for_each_progress [where f = ?step and argv = ?argv])
    fix p sa sb
    assume "?step p sa = (Inr (), sb)"
    then show "\<exists>es. trace sb = trace sa @ es \<and> spawns es = [?argv p] \<and> progress es = 1"
      by (rule package_step)
  next
    show "for_each ?step packages ?s0 = (Inr (), s4)" by (fact loop)
  qed
  then obtain es where es: "trace s4 = trace ?s0 @ es" "spawns es = map ?argv packages"
    "progress es = length packages" by blast
  have "trace s' = trace s @ ((?open # es) @ [PbarClose, ?done])"
    using log_run [OF 2] 4 es(1) by simp
  from events_of_eq [where m = "update_packages w venv_name packages" and s = s, OF run this]
  have ev: "events_of (update_packages w venv_name packages) s = (?open # es) @ [PbarClose, ?done]" .
  show ?thesis unfolding ev using es(2,3) by (simp add: spawns_append progress_append)
qed

lemma remove_all_packages_completes:
  assumes "fst (remove_all_packages w venv_name s) = Inr ()"
  shows "\<exists>result.
           subprocess w (spawned s) [get_python_executable w venv_name, ''-m'', ''pip'', ''freeze''] =
             Inr result \<and>
           spawns (events_of (remove_all_packages w venv_name) s) =
             [get_python_executable w venv_name, ''-m'', ''pip'', ''freeze''] #
             map (\<lambda>package. [get_python_executable w venv_name, ''-m'', ''pip'', ''uninstall'',
                              ''-y'', package])
               (map (before_sep ''=='') (splitlines (stdout result))) \<and>
           progress (events_of (remove_all_packages w venv_name) s) =
             length (splitlines (stdout result)) \<and>
           (\<exists>es. events_of (remove_all_packages w venv_name) s =
                   es @ [Print (if splitlines (stdout result) = []
                                then ''[INFO] No packages to remove.''
                                else ''[INFO] All packages removed successfully.'')])"
proof -
  let ?py = "get_python_executable w venv_name"
  let ?freeze = "[?py, ''-m'', ''pip'', ''freeze'']"
  let ?argv = "\<lambda>package. [?py, ''-m'', ''pip'', ''uninstall'', ''-y'', package]"
  let ?step = "\<lambda>package.
                   bnd (Popen w (?argv package)) (\<lambda>process.
                   block
                     [for_each (marker_line ''Uninstalling'' ''Removing: '') (readlines (stdout process)),
                      drain (stderr process),
                      emit (PbarUpdate 1)])"
  let ?start = "Print ''[INFO] Removing all installed packages...''"
  let ?m = "remove_all_packages w venv_name"
  obtain s' where run: "?m s = (Inr (), s')"
    using assms by (cases "?m s") auto
  let ?k = "\<lambda>result.
         let packages = map (before_sep ''=='') (splitlines (stdout result))
         in if packages = [] then log ''No packages to remove.''
            else
              seq (with_tqdm (Some (length packages)) ''Removing packages''
                     (for_each ?step packages))
                (log ''All packages removed successfully.'')"
  from run obtain u s1 where 1: "log ''Removing all installed packages...'' s = (Inr u, s1)"
    and 2: "bnd (Popen w ?freeze) ?k s1 = (Inr (), s')"
    unfolding remove_all_packages_def Let_def subprocess_run_unchecked by (rule seq_Inr_elim)
  from 2 obtain r s2 where 3: "Popen w ?freeze s1 = (Inr r, s2)" and 4: "?k r s2 = (Inr (), s')"
    by (rule bnd_Inr_elim)
  let ?pkgs = "map (before_sep ''=='') (splitlines (stdout r))"
  have t1: "trace s1 = trace s @ [?start]" and sp1: "spawned s1 = spawned s"
    using 1 by (auto simp: log_def print_def emit_def)
  have t2: "trace s2 = trace s @ [?start, Spawn ?freeze]"
    using Popen_Inr_trace [OF 3] t1 by simp
  have sub: "subprocess w (spawned s) ?freeze = Inr r"
    using Popen_Inr_result [OF 3] sp1 by simp
  show ?thesis
  proof (cases "splitlines (stdout r) = []")
    case True
    with 4 have "log ''No packages to remove.'' s2 = (Inr (), s')" by simp
    from log_run [OF this] t2
    have "trace s' = trace s @ [?start, Spawn ?freeze, Print ''[INFO] No packages to remove.'']"
      by simp
    from events_of_eq [where m = ?m and s = s, OF run this]
    have ev: "events_of ?m s = [?start, Spawn ?freeze, Print ''[INFO] No packages to remove.'']" .
    have "events_of ?m s = [?start, Spawn ?freeze] @ [Print ''[INFO] No packages to remove.'']"
      unfolding ev by simp
    with True sub ev show ?thesis by auto
  next
    case False
    let ?open = "PbarOpen (Some (length ?pkgs)) ''Removing packages''"
    let ?done = "Print ''[INFO] All packages removed successfully.''"
    from False 4 have "seq (with_tqdm (Some (length ?pkgs)) ''Removing packages''
                     (for_each ?step ?pkgs))
                (log ''All packages removed successfully.'') s2 = (Inr (), s')"
      by (simp add: Let_def)
    then obtain v s3 where 5: "with_tqdm (Some (length ?pkgs)) ''Removing packages''
                     (for_each ?step ?pkgs) s2 = (Inr v, s3)"
      and 6: "log ''All packages removed successfully.'' s3 = (Inr (), s')"
      by (rule seq_Inr_elim)
    let ?s0 = "s2\<lparr>trace := trace s2 @ [?open]\<rparr>"
    from 5 obtain s4 where 7: "for_each ?step ?pkgs ?s0 = (Inr v, s4)"
      and 8: "s3 = s4\<lparr>trace := trace s4 @ [PbarClose]\<rparr>"
      by (rule with_tqdm_Inr_elim)
    from 7 have loop: "for_each ?step ?pkgs ?s0 = (Inr (), s4)" by simp
    have "\<exists>es. trace s4 = trace ?s0 @ es \<and> spawns es = map ?argv ?pkgs \<and>
               progress es = length ?pkgs"
    proof (rule for_each_progress [where f = ?step and argv = ?argv])
      fix p sa sb
      assume "?step p sa = (Inr (), sb)"
      then show "\<exists>es. trace sb = trace sa @ es \<and> spawns es = [?argv p] \<and> progress es = 1"
        by (rule package_step)
    next
      show "for_each ?step ?pkgs ?s0 = (Inr (), s4)" by (fact loop)
    qed
    then obtain es where es: "trace s4 = trace ?s0 @ es" "spawns es = map ?argv ?pkgs"
      "progress es = length ?pkgs" by blast
    have "trace s' = trace s @ (([?start, Spawn ?freeze, ?open] @ es @ [PbarClose]) @ [?done])"
      using log_run [OF 6] 8 es(1) t2 by simp
    from events_of_eq [where m = ?m and s = s, OF run this]
    have ev: "events_of ?m s = ([?start, Spawn ?freeze, ?open] @ es @ [PbarClose]) @ [?done]" .
    have "spawns (events_of ?m s) = ?freeze # map ?argv ?pkgs"
      unfolding ev using es(2) by (simp add: spawns_append)
    moreover have "progress (events_of ?m s) = length (splitlines (stdout r))"
      unfolding ev using es(3) by (simp add: progress_append)
    moreover have "\<exists>es'. events_of ?m s = es' @ [Print (if splitlines (stdout r) = []
                                then ''[INFO] No packages to remove.''
                                else ''[INFO] All packages removed successfully.'')]"
      using False ev by auto
    ultimately show ?thesis using sub by blast
  qed
qed


text \<open>
  Claim C4.  \<open>remove_package\<close>, \<open>remove_all_packages\<close> and \<open>update_packages\<close> never
  look at the exit status of a command and discard what it wrote to its error stream:
  each of them does the same in a world where the commands exit with other statuses and
  other error output.  Whenever one of them returns, the bar was advanced once for every
  package whose command was launched and the run ends with the message of success (for
  \<open>remove_all_packages\<close> with nothing to remove, with the message that says so).
\<close>

theorem exit_status_is_never_inspected:
  "remove_package (with_exits w rc err) venv_name package_name =
     remove_package w venv_name package_name \<and>
   remove_all_packages (with_exits w rc err) venv_name = remove_all_packages w venv_name \<and>
   update_packages (with_exits w rc err) venv_name packages =
     update_packages w venv_name packages \<and>
   (fst (remove_package w venv_name package_name s) = Inr () \<longrightarrow>
      (\<exists>es. events_of (remove_package w venv_name package_name) s =
            es @ [PbarUpdate 1, PbarClose,
                  Print (''[INFO] Package '' @ quote @ package_name @ quote @
                         '' removed successfully.'')])) \<and>
   (fst (remove_all_packages w venv_name s) = Inr () \<longrightarrow>
      (\<exists>result.
         subprocess w (spawned s) [get_python_executable w venv_name, ''-m'', ''pip'', ''freeze''] =
           Inr result \<and>
         spawns (events_of (remove_all_packages w venv_name) s) =
           [get_python_executable w venv_name, ''-m'', ''pip'', ''freeze''] #
           map (\<lambda>package. [get_python_executable w venv_name, ''-m'', ''pip'', ''uninstall'',
                            ''-y'', package])
             (map (before_sep ''=='') (splitlines (stdout result))) \<and>
         progress (events_of (remove_all_packages w venv_name) s) =
           length (splitlines (stdout result)) \<and>
         (\<exists>es. events_of (remove_all_packages w venv_name) s =
               es @ [Print (if splitlines (stdout result) = []
                            then ''[INFO] No packages to remove.''
                            else ''[INFO] All packages removed successfully.'')]))) \<and>
   (fst (update_packages w venv_name packages s) = Inr () \<longrightarrow>
      spawns (events_of (update_packages w venv_name packages) s) =
        map (\<lambda>package. [get_python_executable w venv_name, ''-m'', ''pip'', ''install'',
                         ''--upgrade'', package]) packages \<and>
      progress (events_of (update_packages w venv_name packages) s) = length packages \<and>
      (\<exists>es. events_of (update_packages w venv_name packages) s =
            es @ [PbarClose, Print ''[INFO] All selected packages updated successfully.'']))"
  using remove_package_with_exits [of w rc err venv_name package_name]
    remove_all_packages_with_exits [of w rc err venv_name]
    update_packages_with_exits [of w rc err venv_name packages]
    remove_package_completes [of w venv_name package_name s]
    remove_all_packages_completes [of w venv_name s]
    update_packages_completes [of w venv_name packages s]
  by blast

lemma failing_world_python: "get_python_executable failing_world ''venv'' = ''venv/bin/python''"
  by (simp add: failing_world_def world_defs)

lemma failing_world_uninstall:
  "subprocess failing_world n [''venv/bin/python'', ''-m'', ''pip'', ''uninstall'', ''-y'', ''numpy''] =
     Inr (exited 1 [] (unlines [''ERROR: Cannot uninstall numpy'']))"
  by (simp add: failing_world_def posix_world_def venv_python_def)

lemma failing_world_freeze:
  "subprocess failing_world n [''venv/bin/python'', ''-m'', ''pip'', ''freeze''] =
     Inr (exited 0 (unlines [''numpy==1.26.0'']) [])"
  by (simp add: failing_world_def posix_world_def venv_python_def)

lemma failing_world_upgrade:
  "subprocess failing_world n [''venv/bin/python'', ''-m'', ''pip'', ''install'', ''--upgrade'', ''numpy''] =
     Inr (exited 1 [] (unlines [''ERROR: No matching distribution found for numpy'']))"
  by (simp add: failing_world_def posix_world_def venv_python_def)

lemma failing_world_remove:
  "fst (remove_package failing_world ''venv'' ''numpy'' (start [(''venv'', Dir)] [])) = Inr ()"
  unfolding remove_package_def Let_def failing_world_python drain_ret
  by (simp add: run_defs failing_world_uninstall exited_def str_defs)

lemma failing_world_remove_all:
  "fst (remove_all_packages failing_world ''venv'' (start [(''venv'', Dir)] [])) = Inr ()"
  unfolding remove_all_packages_def Let_def failing_world_python drain_ret
  by (simp add: run_defs failing_world_uninstall failing_world_freeze exited_def str_defs unlines_def)

lemma failing_world_update:
  "fst (update_packages failing_world ''venv'' [''numpy''] (start [(''venv'', Dir)] [])) = Inr ()"
  unfolding update_packages_def Let_def failing_world_python drain_ret
  by (simp add: run_defs failing_world_upgrade exited_def str_defs)

theorem exit_status_is_never_inspected_witness:
  "returncode (exited 1 [] (unlines [''ERROR: Cannot uninstall numpy''])) = 1 \<and>
   subprocess failing_world 0 [''venv/bin/python'', ''-m'', ''pip'', ''uninstall'', ''-y'', ''numpy''] =
     Inr (exited 1 [] (unlines [''ERROR: Cannot uninstall numpy''])) \<and>
   remove_package (with_exits failing_world (\<lambda>n argv. 0) (\<lambda>n argv. [])) ''venv'' ''numpy'' =
     remove_package failing_world ''venv'' ''numpy'' \<and>
   fst (remove_package failing_world ''venv'' ''numpy'' (start [(''venv'', Dir)] [])) = Inr () \<and>
   (\<exists>es. events_of (remove_package failing_world ''venv'' ''numpy'') (start [(''venv'', Dir)] []) =
         es @ [PbarUpdate 1, PbarClose,
               Print (''[INFO] Package '' @ quote @ ''numpy'' @ quote @ '' removed successfully.'')]) \<and>
   fst (remove_all_packages failing_world ''venv'' (start [(''venv'', Dir)] [])) = Inr () \<and>
   (\<exists>es. events_of (remove_all_packages failing_world ''venv'') (start [(''venv'', Dir)] []) =
         es @ [Print ''[INFO] All packages removed successfully.'']) \<and>
   progress (events_of (remove_all_packages failing_world ''venv'') (start [(''venv'', Dir)] [])) = 1 \<and>
   fst (update_packages failing_world ''venv'' [''numpy''] (start [(''venv'', Dir)] [])) = Inr () \<and>
   progress (events_of (update_packages failing_world ''venv'' [''numpy'']) (start [(''venv'', Dir)] [])) = 1 \<and>
   (\<exists>es. events_of (update_packages failing_world ''venv'' [''numpy'']) (start [(''venv'', Dir)] []) =
         es @ [PbarClose, Print ''[INFO] All selected packages updated successfully.''])"
proof -
  let ?s = "start [(''venv'', Dir)] []"
  note inst = exit_status_is_never_inspected
    [of failing_world "\<lambda>n argv. 0" "\<lambda>n argv. []" "''venv''" "''numpy''" "[''numpy'']" ?s]
  have sp: "spawned ?s = 0" by (simp add: start_def)
  have lines: "splitlines (stdout (exited 0 (unlines [''numpy==1.26.0'']) [])) = [''numpy==1.26.0'']"
    by (simp add: exited_def unlines_def str_defs)
  from inst failing_world_remove_all obtain result where
    r: "subprocess failing_world (spawned ?s)
          [get_python_executable failing_world ''venv'', ''-m'', ''pip'', ''freeze''] = Inr result"
    and p: "progress (events_of (remove_all_packages failing_world ''venv'') ?s) =
            length (splitlines (stdout result))"
    and e: "\<exists>es. events_of (remove_all_packages failing_world ''venv'') ?s =
               es @ [Print (if splitlines (stdout result) = []
                            then ''[INFO] No packages to remove.''
                            else ''[INFO] All packages removed successfully.'')]"
    by blast
  from r have res: "result = exited 0 (unlines [''numpy==1.26.0'']) []"
    unfolding failing_world_python failing_world_freeze by simp
  have a: "progress (events_of (remove_all_packages failing_world ''venv'') ?s) = 1"
    using p unfolding res lines by simp
  have b: "\<exists>es. events_of (remove_all_packages failing_world ''venv'') ?s =
         es @ [Print ''[INFO] All packages removed successfully.'']"
    using e unfolding res lines by simp
  have c: "returncode (exited 1 [] (unlines [''ERROR: Cannot uninstall numpy''])) = 1"
    by (simp add: exited_def)
  from inst failing_world_remove failing_world_remove_all failing_world_update a b c
    failing_world_uninstall [of 0]
  show ?thesis by simp
qed


end
